theory Spec2Isabelle
  imports Main "HOL-Library.Word"
begin

section \<open>JavaScript values used by the webhook route\<close>

text \<open>
  The route handles header values, environment values and the request body as JavaScript
  strings. A string is modelled as a \<open>char list\<close>, one \<open>char\<close> per code unit in the
  Latin-1 range, which is the range of an HTTP header value. The functions below are the
  string methods the route calls, with the behaviour ECMAScript gives them on that range.
\<close>

type_synonym bytes = "8 word list"

text \<open>A thrown JavaScript \<open>Error\<close>: its name, its message and the \<open>CauseLike\<close> fields
  the route reads from \<open>error.cause\<close>.\<close>

record CauseLike =
  code :: "string option"
  errno :: "int option"
  syscall :: "string option"

record js_error =
  err_name :: string
  err_message :: string
  err_cause :: "CauseLike option"

text \<open>\<open>String.prototype.trim\<close> removes white space and line terminators at both ends;
  below code unit 256 these are TAB, LF, VT, FF, CR, SP and NBSP.\<close>

definition isWhiteSpace :: "char \<Rightarrow> bool" where
  "isWhiteSpace c = ((of_char c :: nat) \<in> set [9, 10, 11, 12, 13, 32, 160])"

definition trimStart :: "string \<Rightarrow> string" where
  "trimStart s = dropWhile isWhiteSpace s"

definition trim :: "string \<Rightarrow> string" where
  "trim s = rev (dropWhile isWhiteSpace (rev (dropWhile isWhiteSpace s)))"

text \<open>\<open>s.split(c)\<close> for a one-character separator: the pieces between the separators,
  always at least one piece (\<open>"".split(",")\<close> is \<open>[""]\<close>).\<close>

fun split_on :: "char \<Rightarrow> string \<Rightarrow> string list" where
  "split_on c [] = [[]]"
| "split_on c (x # xs) =
     (if x = c then [] # split_on c xs
      else (case split_on c xs of
              [] \<Rightarrow> [[x]]
            | p # ps \<Rightarrow> (x # p) # ps))"

definition startsWith :: "string \<Rightarrow> string \<Rightarrow> bool" where
  "startsWith s p = (take (length p) s = p)"

text \<open>\<open>const [, value] = trimmed.split("=")\<close>: the second piece, \<open>undefined\<close> when there
  is none.\<close>

definition second_piece :: "string \<Rightarrow> string option" where
  "second_piece trimmed =
     (case split_on CHR ''='' trimmed of
        _ # v # _ \<Rightarrow> Some v
      | _ \<Rightarrow> None)"

text \<open>A JavaScript number as the route meets it: \<open>NaN\<close> or an integer. \<open>parseInt\<close> yields
  the double nearest to the digits read; the model keeps the exact integer, which is the
  same value below \<open>2 ^ 53\<close>, and every value beyond is further than the tolerance from any
  clock reading, so the verifier decides alike.\<close>

datatype jsnum = NaN | Num int

definition isDigit :: "char \<Rightarrow> bool" where
  "isDigit c = (48 \<le> (of_char c :: nat) \<and> (of_char c :: nat) \<le> 57)"

definition digit_value :: "char \<Rightarrow> int" where
  "digit_value c = int (of_char c) - 48"

definition digits_value :: "string \<Rightarrow> int" where
  "digits_value Z = foldl (\<lambda>acc c. 10 * acc + digit_value c) 0 Z"

text \<open>\<open>parseInt(s, 10)\<close>: skip leading white space, read an optional sign, then the
  longest run of decimal digits; no digit gives \<open>NaN\<close>.\<close>

definition parseInt :: "string \<Rightarrow> jsnum" where
  "parseInt s =
     (let S = trimStart s;
          sign = (case S of c # _ \<Rightarrow> (if c = CHR ''-'' then - 1 else 1) | [] \<Rightarrow> (1::int));
          S' = (case S of c # rest \<Rightarrow> (if c = CHR ''+'' \<or> c = CHR ''-'' then rest else S)
                | [] \<Rightarrow> S);
          Z = takeWhile isDigit S'
      in if Z = [] then NaN else Num (sign * digits_value Z))"

definition digit_char :: "int \<Rightarrow> char" where
  "digit_char d = ''0123456789'' ! nat d"

text \<open>The decimal digits of a non-negative integer, most significant first.\<close>

function decimal :: "int \<Rightarrow> string" where
  "decimal n = (if n < 10 then [digit_char n] else decimal (n div 10) @ [digit_char (n mod 10)])"
  by pat_completeness auto
termination
  by (relation "measure nat") auto

declare decimal.simps [simp del]

text \<open>The template literal \<open>`${timestamp}`\<close>: \<open>Number::toString\<close>.\<close>

fun toString :: "jsnum \<Rightarrow> string" where
  "toString NaN = ''NaN''"
| "toString (Num n) = (if n < 0 then ''-'' @ decimal (- n) else decimal n)"

text \<open>\<open>Math.abs(currentTimestamp - timestamp) > TOLERANCE\<close>: a comparison with \<open>NaN\<close>
  is false.\<close>

definition TOLERANCE :: int where
  "TOLERANCE = 300"

fun outside_tolerance :: "int \<Rightarrow> jsnum \<Rightarrow> bool" where
  "outside_tolerance currentTimestamp NaN = False"
| "outside_tolerance currentTimestamp (Num t) = (\<bar>currentTimestamp - t\<bar> > TOLERANCE)"

subsection \<open>Buffers\<close>

text \<open>\<open>digest("hex")\<close> writes two lower-case digits for each byte.\<close>

definition hex_digit :: "nat \<Rightarrow> char" where
  "hex_digit d = ''0123456789abcdef'' ! d"

definition hex_encode :: "bytes \<Rightarrow> string" where
  "hex_encode bs = concat (map (\<lambda>b. [hex_digit (unat b div 16), hex_digit (unat b mod 16)]) bs)"

definition unhex :: "char \<Rightarrow> nat option" where
  "unhex c =
     (let n = (of_char c :: nat) in
      if 48 \<le> n \<and> n \<le> 57 then Some (n - 48)
      else if 97 \<le> n \<and> n \<le> 102 then Some (n - 87)
      else if 65 \<le> n \<and> n \<le> 70 then Some (n - 55)
      else None)"

text \<open>\<open>Buffer.from(s, "hex")\<close> decodes pairs of hexadecimal digits and stops at the first
  pair that is not one; a last unpaired character is dropped. It never throws.\<close>

fun hex_decode :: "string \<Rightarrow> bytes" where
  "hex_decode (a # b # rest) =
     (case unhex a of
        None \<Rightarrow> []
      | Some hi \<Rightarrow>
          (case unhex b of
             None \<Rightarrow> []
           | Some lo \<Rightarrow> of_nat (hi * 16 + lo) # hex_decode rest))"
| "hex_decode _ = []"

text \<open>\<open>crypto.timingSafeEqual\<close> throws a \<open>RangeError\<close> on buffers of different length.\<close>

definition timingSafeEqual :: "bytes \<Rightarrow> bytes \<Rightarrow> js_error + bool" where
  "timingSafeEqual a b =
     (if length a \<noteq> length b
      then Inl \<lparr>err_name = ''RangeError'',
                err_message = ''Input buffers must have the same byte length'',
                err_cause = None\<rparr>
      else Inr (a = b))"

section \<open>parseStripeSignatureHeader\<close>

record SignatureEntry =
  timestamp :: string
  signature :: string

text \<open>The first loop: the value of the first \<open>t=\<close> segment whose value is not empty.\<close>

fun find_timestamp :: "string list \<Rightarrow> string option" where
  "find_timestamp [] = None"
| "find_timestamp (part # parts) =
     (let trimmed = trim part in
      if startsWith trimmed ''t=''
      then (case second_piece trimmed of
              None \<Rightarrow> find_timestamp parts
            | Some v \<Rightarrow> (if v \<noteq> [] then Some v else find_timestamp parts))
      else find_timestamp parts)"

text \<open>The second loop: one entry for each \<open>v1=\<close> segment whose value is not empty.\<close>

fun collect_v1 :: "string \<Rightarrow> string list \<Rightarrow> SignatureEntry list" where
  "collect_v1 ts [] = []"
| "collect_v1 ts (part # parts) =
     (let trimmed = trim part in
      if startsWith trimmed ''v1=''
      then (case second_piece trimmed of
              None \<Rightarrow> collect_v1 ts parts
            | Some v \<Rightarrow>
                (if v \<noteq> [] then \<lparr>timestamp = ts, signature = v\<rparr> # collect_v1 ts parts
                 else collect_v1 ts parts))
      else collect_v1 ts parts)"

definition parseStripeSignatureHeader :: "string \<Rightarrow> SignatureEntry list" where
  "parseStripeSignatureHeader signatureHeader =
     (let parts = split_on CHR '','' signatureHeader in
      case find_timestamp parts of
        None \<Rightarrow> []
      | Some ts \<Rightarrow>
          (if ts = [] then []
           else (let entries = collect_v1 ts parts;
                     hasV1 = (entries \<noteq> [])
                 in if \<not> hasV1 then [] else entries)))"

section \<open>verifyStripeSignature\<close>

text \<open>
  \<open>createHmac("sha256", Buffer.from(secret, "utf8")).update(signedPayload).digest()\<close> is
  the crypto library's; the verifier takes it as the parameter \<open>hmac\<close>, from the secret and
  the signed payload to the digest bytes, or to the error the library throws.
\<close>

type_synonym hmac_fn = "string \<Rightarrow> string \<Rightarrow> js_error + bytes"

record Verification =
  valid :: bool
  verified_timestamp :: "jsnum option"

text \<open>The \<open>for (const entry of entries)\<close> loop; \<open>Inl\<close> is an exception leaving the loop.\<close>

fun verify_entries ::
  "hmac_fn \<Rightarrow> int \<Rightarrow> string \<Rightarrow> string \<Rightarrow> SignatureEntry list \<Rightarrow> js_error + Verification"
where
  "verify_entries hmac currentTimestamp rawBody secret [] =
     Inr \<lparr>valid = False, verified_timestamp = None\<rparr>"
| "verify_entries hmac currentTimestamp rawBody secret (entry # entries) =
     (let ts = parseInt (timestamp entry);
          sig = signature entry
      in if outside_tolerance currentTimestamp ts
         then verify_entries hmac currentTimestamp rawBody secret entries
         else
           (let signedPayload = toString ts @ ''.'' @ rawBody in
            case hmac secret signedPayload of
              Inl e \<Rightarrow> Inl e
            | Inr digest \<Rightarrow>
                (let expectedSignature = hex_encode digest;
                     expectedBuffer = hex_decode expectedSignature;
                     receivedBuffer = hex_decode sig
                 in if length expectedBuffer \<noteq> length receivedBuffer
                    then verify_entries hmac currentTimestamp rawBody secret entries
                    else
                      (case timingSafeEqual expectedBuffer receivedBuffer of
                         Inl e \<Rightarrow> Inl e
                       | Inr eq \<Rightarrow>
                           (if eq then Inr \<lparr>valid = True, verified_timestamp = Some ts\<rparr>
                            else verify_entries hmac currentTimestamp rawBody secret entries)))))"

text \<open>The body of the \<open>try\<close> block.\<close>

definition verify_try ::
  "hmac_fn \<Rightarrow> int \<Rightarrow> string \<Rightarrow> string \<Rightarrow> string \<Rightarrow> js_error + Verification"
where
  "verify_try hmac currentTimestamp rawBody signatureHeader secret =
     (let entries = parseStripeSignatureHeader signatureHeader in
      if length entries = 0 then Inr \<lparr>valid = False, verified_timestamp = None\<rparr>
      else verify_entries hmac currentTimestamp rawBody secret entries)"

text \<open>The whole function: \<open>catch (error) { return { valid: false } }\<close>.\<close>

definition verifyStripeSignature ::
  "hmac_fn \<Rightarrow> int \<Rightarrow> string \<Rightarrow> string \<Rightarrow> string \<Rightarrow> Verification"
where
  "verifyStripeSignature hmac currentTimestamp rawBody signatureHeader secret =
     (case verify_try hmac currentTimestamp rawBody signatureHeader secret of
        Inl e \<Rightarrow> \<lparr>valid = False, verified_timestamp = None\<rparr>
      | Inr r \<Rightarrow> r)"

section \<open>The host: environment, clock, crypto, URL parser, network\<close>

text \<open>
  The route reads \<open>process.env\<close> and the clock, and calls \<open>createHmac\<close>, \<open>new URL\<close>,
  \<open>fetch\<close>, \<open>new Date().toISOString()\<close> and \<open>randomUUID\<close>. Each is a field of the
  \<open>World\<close> the handlers run in; a call that can throw returns a sum, \<open>Inl\<close> the thrown error.
  The module imports only \<open>createHmac\<close> and \<open>timingSafeEqual\<close> from \<open>crypto\<close>, so the
  identifier \<open>randomUUID\<close> of its second variant is whatever the host's global scope holds:
  evaluating \<open>randomUUID()\<close> is a \<open>ReferenceError\<close> where nothing is bound to it.
  Console output is not modelled, nor are \<open>safeJsonParseForLog\<close> and the preview of a rejected
  response's body, which only feed the console and catch their own exceptions; the abort timer
  shows as a \<open>fetch\<close> that rejects.
\<close>

record URL =
  protocol :: string
  hostname :: string
  pathname :: string

text \<open>The arguments of one \<open>fetch(url, { method, headers, body, signal })\<close> call; \<open>headers\<close>
  is the object literal, in property order.\<close>

record FetchCall =
  fetch_url :: string
  fetch_method :: string
  fetch_headers :: "(string \<times> string) list"
  fetch_body :: string

datatype FetchOutcome = Rejects js_error | Resolves nat

text \<open>\<open>response.ok\<close> of a response with the given status.\<close>

definition ok :: "nat \<Rightarrow> bool" where
  "ok st = (200 \<le> st \<and> st \<le> 299)"

record World =
  process_env :: "string \<Rightarrow> string option"
  Date_now_seconds :: int
  hmac_sha256 :: hmac_fn
  new_URL :: "string \<Rightarrow> js_error + URL"
  fetch :: "FetchCall \<Rightarrow> FetchOutcome"
  Date_toISOString :: string
  randomUUID :: "js_error + string"

text \<open>An inbound request: the outcome of \<open>await request.text()\<close> and \<open>request.headers.get\<close>.\<close>

record Request =
  request_text :: "js_error + string"
  headers_get :: "string \<Rightarrow> string option"

record Response =
  status :: nat
  headers :: "(string \<times> string) list"
  body :: string

text \<open>\<open>!x\<close> for a value that is a string, \<open>undefined\<close> or \<open>null\<close>.\<close>

fun falsy :: "string option \<Rightarrow> bool" where
  "falsy None = True"
| "falsy (Some s) = (s = [])"

text \<open>\<open>headers[k] = v\<close> on an object: a present key keeps its place.\<close>

fun set_property :: "string \<Rightarrow> string \<Rightarrow> (string \<times> string) list \<Rightarrow> (string \<times> string) list" where
  "set_property k v [] = [(k, v)]"
| "set_property k v ((k', v') # kvs) =
     (if k' = k then (k, v) # kvs else (k', v') # set_property k v kvs)"

subsection \<open>JSON.stringify\<close>

datatype json = JString string | JBool bool | JObject "(string \<times> json) list"

definition backslash :: char where
  "backslash = CHR 0x5C"

definition escape_char :: "char \<Rightarrow> string" where
  "escape_char c =
     (let n = (of_char c :: nat) in
      if n = 34 then [backslash, c]
      else if n = 92 then [backslash, c]
      else if n = 8 then [backslash, CHR ''b'']
      else if n = 9 then [backslash, CHR ''t'']
      else if n = 10 then [backslash, CHR ''n'']
      else if n = 12 then [backslash, CHR ''f'']
      else if n = 13 then [backslash, CHR ''r'']
      else if n < 32 then [backslash, CHR ''u'', CHR ''0'', CHR ''0'', hex_digit (n div 16), hex_digit (n mod 16)]
      else [c])"

definition quote :: "string \<Rightarrow> string" where
  "quote s = [CHR 0x22] @ concat (map escape_char s) @ [CHR 0x22]"

fun join_comma :: "string list \<Rightarrow> string" where
  "join_comma [] = []"
| "join_comma [x] = x"
| "join_comma (x # y # zs) = x @ '','' @ join_comma (y # zs)"

fun JSON_stringify :: "json \<Rightarrow> string"
  and stringify_members :: "(string \<times> json) list \<Rightarrow> string list"
where
  "JSON_stringify (JString s) = quote s"
| "JSON_stringify (JBool b) = (if b then ''true'' else ''false'')"
| "JSON_stringify (JObject kvs) = ''{'' @ join_comma (stringify_members kvs) @ ''}''"
| "stringify_members [] = []"
| "stringify_members ((k, v) # kvs) = (quote k @ '':'' @ JSON_stringify v) # stringify_members kvs"

text \<open>\<open>new Response(JSON.stringify(value), { status, headers: { "Content-Type":
  "application/json" } })\<close>, the shape of every response of the route.\<close>

definition json_response :: "nat \<Rightarrow> json \<Rightarrow> Response" where
  "json_response st v =
     \<lparr>status = st, headers = [(''Content-Type'', ''application/json'')], body = JSON_stringify v\<rparr>"

definition error_response :: "nat \<Rightarrow> string \<Rightarrow> Response" where
  "error_response st msg = json_response st (JObject [(''error'', JString msg)])"

section \<open>forwardToSupabase\<close>

record GatewayError =
  name :: string
  message :: string
  causeCode :: "string option"

text \<open>\<open>ForwardResult\<close> of the second variant; the first variant's result has the fields
  \<open>success\<close> and \<open>status\<close> only, the other two are then absent.\<close>

record ForwardResult =
  success :: bool
  forward_status :: "nat option"
  forwardError :: "string option"
  gatewayError :: "GatewayError option"

definition forward_failure :: ForwardResult where
  "forward_failure = \<lparr>success = False, forward_status = None, forwardError = None, gatewayError = None\<rparr>"

definition forward_error :: "string \<Rightarrow> ForwardResult" where
  "forward_error msg = forward_failure\<lparr>forwardError := Some msg\<rparr>"

subsection \<open>First variant (10 s timeout, service-role key)\<close>

text \<open>The \<open>headers\<close> object and the arguments of the \<open>fetch\<close> call, built once the
  URL and the key are known to be set.\<close>

definition fetch_call_v1 :: "World \<Rightarrow> string \<Rightarrow> string \<Rightarrow> FetchCall" where
  "fetch_call_v1 w rawBody stripeSignature =
     (let supabaseUrl = process_env w ''SUPABASE_INTERNAL_WEBHOOK_URL'';
          serviceRoleKey = process_env w ''SUPABASE_SERVICE_ROLE_KEY'';
          internalSecret = process_env w ''INTERNAL_WEBHOOK_SHARED_SECRET'';
          headers0 = [(''Content-Type'', ''application/json''),
                      (''Authorization'', ''Bearer '' @ the serviceRoleKey)];
          headers1 = (if \<not> falsy internalSecret
                      then set_property ''x-internal-webhook-secret'' (the internalSecret) headers0
                      else headers0);
          headers2 = set_property ''stripe-signature'' stripeSignature headers1
      in \<lparr>fetch_url = the supabaseUrl, fetch_method = ''POST'',
          fetch_headers = headers2, fetch_body = rawBody\<rparr>)"

text \<open>The result and the \<open>fetch\<close> calls issued, in order.\<close>

definition forwardToSupabase_v1 :: "World \<Rightarrow> string \<Rightarrow> string \<Rightarrow> ForwardResult \<times> FetchCall list" where
  "forwardToSupabase_v1 w rawBody stripeSignature =
     (let supabaseUrl = process_env w ''SUPABASE_INTERNAL_WEBHOOK_URL'';
          serviceRoleKey = process_env w ''SUPABASE_SERVICE_ROLE_KEY''
      in if falsy supabaseUrl \<or> falsy serviceRoleKey then (forward_failure, [])
         else
           (let call = fetch_call_v1 w rawBody stripeSignature
            in case fetch w call of
                 Rejects error \<Rightarrow> (forward_failure, [call])
               | Resolves st \<Rightarrow>
                   (if \<not> ok st then (forward_failure\<lparr>forward_status := Some st\<rparr>, [call])
                    else (\<lparr>success = True, forward_status = Some st,
                           forwardError = None, gatewayError = None\<rparr>, [call]))))"

subsection \<open>Second variant (25 s timeout, edge token, URL checks, ping mode)\<close>

text \<open>\<open>c?.code ?? c?.errno?.toString() ?? c?.syscall ?? undefined\<close>.\<close>

definition cause_code :: "CauseLike option \<Rightarrow> string option" where
  "cause_code c =
     (case c of
        None \<Rightarrow> None
      | Some cl \<Rightarrow>
          (case code cl of
             Some x \<Rightarrow> Some x
           | None \<Rightarrow>
               (case errno cl of
                  Some n \<Rightarrow> Some (toString (Num n))
                | None \<Rightarrow> syscall cl)))"

text \<open>The trimmed destination URL and the trimmed edge token, as the function reads them.\<close>

definition supabaseUrl_v2 :: "World \<Rightarrow> string" where
  "supabaseUrl_v2 w =
     (case process_env w ''SUPABASE_INTERNAL_WEBHOOK_URL'' of Some rawUrl \<Rightarrow> trim rawUrl | None \<Rightarrow> [])"

definition internalEdgeToken :: "World \<Rightarrow> string option" where
  "internalEdgeToken w = map_option trim (process_env w ''INTERNAL_EDGE_AUTH_TOKEN'')"

text \<open>The \<open>headers\<close> object, the body and the arguments of the \<open>fetch\<close> call, built once
  the configuration checks have passed.\<close>

definition fetch_call_v2 :: "World \<Rightarrow> string \<Rightarrow> string \<Rightarrow> string \<Rightarrow> bool \<Rightarrow> FetchCall" where
  "fetch_call_v2 w rawBody stripeSignature contentType pingMode =
     (let internalSecret = process_env w ''INTERNAL_WEBHOOK_SHARED_SECRET'';
          headers0 = [(''Content-Type'',
                         (if contentType \<noteq> [] then contentType else ''application/json'')),
                      (''stripe-signature'', stripeSignature),
                      (''Stripe-Signature'', stripeSignature),
                      (''authorization'', ''Bearer '' @ the (internalEdgeToken w))];
          headers1 = (if \<not> falsy internalSecret
                      then set_property ''x-internal-webhook-secret'' (the internalSecret) headers0
                      else headers0);
          body = (if pingMode
                  then JSON_stringify (JObject [(''ping'', JBool True),
                                                (''ts'', JString (Date_toISOString w))])
                  else rawBody)
      in \<lparr>fetch_url = supabaseUrl_v2 w, fetch_method = ''POST'',
          fetch_headers = headers1, fetch_body = body\<rparr>)"

definition forwardToSupabase_v2 ::
  "World \<Rightarrow> string \<Rightarrow> string \<Rightarrow> string \<Rightarrow> bool \<Rightarrow> ForwardResult \<times> FetchCall list"
where
  "forwardToSupabase_v2 w rawBody stripeSignature contentType pingMode =
     (if falsy (internalEdgeToken w) then (forward_error ''INTERNAL_EDGE_AUTH_TOKEN missing'', [])
      else if supabaseUrl_v2 w = [] then (forward_error ''Server configuration error'', [])
      else
        (case new_URL w (supabaseUrl_v2 w) of
           Inl e \<Rightarrow> (forward_error ''Invalid SUPABASE_INTERNAL_WEBHOOK_URL'', [])
         | Inr parsedUrl \<Rightarrow>
             (if protocol parsedUrl \<noteq> ''https:''
              then (forward_error ''SUPABASE_INTERNAL_WEBHOOK_URL must use https protocol'', [])
              else
                (let call = fetch_call_v2 w rawBody stripeSignature contentType pingMode
                 in case fetch w call of
                      Resolves st \<Rightarrow>
                        (if \<not> ok st then (forward_failure\<lparr>forward_status := Some st\<rparr>, [call])
                         else (\<lparr>success = True, forward_status = Some st,
                                forwardError = None, gatewayError = None\<rparr>, [call]))
                    | Rejects err \<Rightarrow>
                        (let c = err_cause err;
                             causeCode = cause_code c
                         in (\<lparr>success = False, forward_status = Some 502, forwardError = None,
                              gatewayError = Some \<lparr>name = err_name err, message = err_message err,
                                causeCode = (case causeCode of Some x \<Rightarrow> Some x
                                             | None \<Rightarrow> (case c of None \<Rightarrow> None | Some cl \<Rightarrow> code cl))\<rparr>\<rparr>,
                             [call]))))))"

section \<open>The POST and GET handlers\<close>

text \<open>A handler returns the response it resolves to, or \<open>Inl\<close> the exception that leaves
  it towards the host, together with the \<open>fetch\<close> calls it issued.\<close>

type_synonym handler_result = "(js_error + Response) \<times> FetchCall list"

definition internal_server_error :: Response where
  "internal_server_error = error_response 500 ''Internal server error''"

subsection \<open>First variant\<close>

text \<open>The body of the \<open>try\<close> block; \<open>await request.text()\<close> is the one call in it that
  can throw.\<close>

definition POST_v1_try :: "World \<Rightarrow> Request \<Rightarrow> handler_result" where
  "POST_v1_try w request =
     (case request_text request of
        Inl e \<Rightarrow> (Inl e, [])
      | Inr rawBody \<Rightarrow>
          (let stripeSignature = headers_get request ''stripe-signature'' in
           if falsy stripeSignature
           then (Inr (error_response 400 ''Missing stripe-signature header''), [])
           else
             (let webhookSecret = process_env w ''STRIPE_WEBHOOK_SECRET'' in
              if falsy webhookSecret
              then (Inr (error_response 500 ''Server configuration error''), [])
              else
                (let verification = verifyStripeSignature (hmac_sha256 w) (Date_now_seconds w)
                                      rawBody (the stripeSignature) (the webhookSecret)
                 in if \<not> valid verification
                    then (Inr (error_response 400 ''Invalid signature''), [])
                    else
                      (let (forwardResult, calls) =
                             forwardToSupabase_v1 w rawBody (the stripeSignature)
                       in if \<not> success forwardResult
                          then (Inr (error_response 500 ''Failed to forward webhook''), calls)
                          else (Inr (json_response 200 (JObject [(''ok'', JBool True)])), calls))))))"

text \<open>\<open>catch (error)\<close>: the generic 500.\<close>

definition POST_v1 :: "World \<Rightarrow> Request \<Rightarrow> handler_result" where
  "POST_v1 w request =
     (case POST_v1_try w request of
        (Inl error, calls) \<Rightarrow> (Inr internal_server_error, calls)
      | (Inr response, calls) \<Rightarrow> (Inr response, calls))"

subsection \<open>Second variant\<close>

definition gateway_response :: "GatewayError \<Rightarrow> Response" where
  "gateway_response g =
     json_response 502
       (JObject [(''error'', JString ''Failed to forward to Supabase''),
                 (''details'',
                    JObject ([(''name'', JString (name g)), (''message'', JString (message g))]
                             @ (case causeCode g of
                                  None \<Rightarrow> []
                                | Some c \<Rightarrow> [(''causeCode'', JString c)])))])"

text \<open>\<open>request.headers.get("content-type") || "application/json"\<close> and
  \<open>process.env.SUPABASE_PING_MODE === "true"\<close>.\<close>

definition contentType_v2 :: "Request \<Rightarrow> string" where
  "contentType_v2 request =
     (if \<not> falsy (headers_get request ''content-type'')
      then the (headers_get request ''content-type'')
      else ''application/json'')"

definition pingMode_v2 :: "World \<Rightarrow> bool" where
  "pingMode_v2 w = (process_env w ''SUPABASE_PING_MODE'' = Some ''true'')"

definition POST_v2_try :: "World \<Rightarrow> Request \<Rightarrow> handler_result" where
  "POST_v2_try w request =
     (case request_text request of
        Inl e \<Rightarrow> (Inl e, [])
      | Inr rawBody \<Rightarrow>
          (let stripeSignature = headers_get request ''stripe-signature'' in
           if falsy stripeSignature
           then (Inr (error_response 400 ''Missing stripe-signature header''), [])
           else
             (let webhookSecret = process_env w ''STRIPE_WEBHOOK_SECRET'' in
              if falsy webhookSecret
              then (Inr (error_response 500 ''Server configuration error''), [])
              else
                (let verification = verifyStripeSignature (hmac_sha256 w) (Date_now_seconds w)
                                      rawBody (the stripeSignature) (the webhookSecret)
                 in if \<not> valid verification
                    then (Inr (error_response 400 ''Invalid signature''), [])
                    else
                      (let contentType = contentType_v2 request;
                           pingMode = pingMode_v2 w;
                           (forwardResult, calls) =
                             forwardToSupabase_v2 w rawBody (the stripeSignature) contentType pingMode
                       in if \<not> success forwardResult
                          then
                            (case gatewayError forwardResult of
                               Some g \<Rightarrow> (Inr (gateway_response g), calls)
                             | None \<Rightarrow>
                                 (if \<not> falsy (forwardError forwardResult)
                                  then (Inr (error_response 500 (the (forwardError forwardResult))), calls)
                                  else (Inr (error_response 500 ''Failed to forward webhook''), calls)))
                          else (Inr (json_response 200 (JObject [(''ok'', JBool True)])), calls))))))"

text \<open>\<open>const requestId = randomUUID()\<close> is evaluated before the \<open>try\<close> block is entered.\<close>

definition POST_v2 :: "World \<Rightarrow> Request \<Rightarrow> handler_result" where
  "POST_v2 w request =
     (case randomUUID w of
        Inl e \<Rightarrow> (Inl e, [])
      | Inr requestId \<Rightarrow>
          (case POST_v2_try w request of
             (Inl error, calls) \<Rightarrow> (Inr internal_server_error, calls)
           | (Inr response, calls) \<Rightarrow> (Inr response, calls)))"

definition GET :: Response where
  "GET = error_response 405 ''Method not allowed''"

section \<open>A property of candidates, and a scenario for the verifier\<close>

text \<open>A candidate passes when its timestamp is not outside the tolerance and the buffer
  decoded from its value equals the buffer decoded from the expected hex.\<close>

definition candidate_passes :: "hmac_fn \<Rightarrow> int \<Rightarrow> string \<Rightarrow> string \<Rightarrow> SignatureEntry \<Rightarrow> bool" where
  "candidate_passes hmac currentTimestamp rawBody secret entry =
     (let ts = parseInt (timestamp entry) in
      \<not> outside_tolerance currentTimestamp ts \<and>
      (case hmac secret (toString ts @ ''.'' @ rawBody) of
         Inl e \<Rightarrow> False
       | Inr digest \<Rightarrow> hex_decode (signature entry) = hex_decode (hex_encode digest)))"

text \<open>The scenario of the specification: secret \<open>whsec_test\<close>, body
  \<open>{"type":"x","id":"evt_1"}\<close>, timestamp 1700000000. The two digests are HMAC-SHA256 under
  that secret of \<open>1700000000.<body>\<close> and of \<open>NaN.<body>\<close>; the crypto library of the
  scenario answers with them and throws on any other input.\<close>

definition scenario_secret :: string where
  "scenario_secret = ''whsec_test''"

definition scenario_body :: string where
  "scenario_body = ''{\"type\":\"x\",\"id\":\"evt_1\"}''"

definition scenario_digest :: bytes where
  "scenario_digest =
     [0x63, 0xa2, 0x88, 0x81, 0xfa, 0x18, 0x5c, 0x95, 0xd3, 0x35, 0x31, 0xe4, 0xca, 0x44, 0x9b, 0x8a,
      0x90, 0x6e, 0x71, 0x81, 0x29, 0x2a, 0xe1, 0x3a, 0x3b, 0xaf, 0xe9, 0x13, 0x2c, 0x52, 0xe0, 0x43]"

definition scenario_nan_digest :: bytes where
  "scenario_nan_digest =
     [0x82, 0xc6, 0x2d, 0x00, 0x87, 0xb2, 0x28, 0x06, 0x24, 0x90, 0x96, 0xc3, 0xa8, 0x53, 0x0d, 0x85,
      0xe3, 0xc7, 0x37, 0x07, 0xc8, 0x64, 0xce, 0x9c, 0x9c, 0x09, 0xc2, 0xe5, 0x43, 0x1f, 0xf0, 0x6e]"

definition crypto_failure :: js_error where
  "crypto_failure = \<lparr>err_name = ''Error'', err_message = ''crypto operation failed'', err_cause = None\<rparr>"

definition scenario_hmac :: hmac_fn where
  "scenario_hmac key msg =
     (if key = scenario_secret \<and> msg = ''1700000000.'' @ scenario_body then Inr scenario_digest
      else if key = scenario_secret \<and> msg = ''NaN.'' @ scenario_body then Inr scenario_nan_digest
      else Inl crypto_failure)"

text \<open>Headers: correctly signed; with a wrong and a correct value; with a non-numeric
  timestamp and the digest of \<open>NaN.<body>\<close>; without \<open>t=\<close>; without \<open>v1=\<close>.\<close>

definition scenario_header :: string where
  "scenario_header =
     ''t=1700000000,v1=63a28881fa185c95d33531e4ca449b8a906e7181292ae13a3bafe9132c52e043''"

definition rotation_header :: string where
  "rotation_header =
     ''t=1700000000,v1=00a28881fa185c95d33531e4ca449b8a906e7181292ae13a3bafe9132c52e043,v1=63a28881fa185c95d33531e4ca449b8a906e7181292ae13a3bafe9132c52e043''"

definition nan_header :: string where
  "nan_header =
     ''t=abc,v1=82c62d0087b22806249096c3a8530d85e3c73707c864ce9c9c09c2e5431ff06e''"

definition no_timestamp_header :: string where
  "no_timestamp_header =
     ''v1=63a28881fa185c95d33531e4ca449b8a906e7181292ae13a3bafe9132c52e043,v0=00''"

definition no_v1_header :: string where
  "no_v1_header = ''t=1700000000,v0=63a2''"

text \<open>The success response, \<open>200\<close> with body \<open>{"ok":true}\<close>, written out.\<close>

definition ok_response :: Response where
  "ok_response =
     \<lparr>status = 200, headers = [(''Content-Type'', ''application/json'')], body = ''{\"ok\":true}''\<rparr>"

section \<open>A scenario for the handlers\<close>

text \<open>The scenario request, correctly signed, in a host with a configured destination whose
  downstream answers 200. The URL parser of the scenario knows the two destinations used
  below.\<close>

definition scenario_url :: string where
  "scenario_url = ''https://project.supabase.co/functions/v1/stripe-webhook''"

definition insecure_url :: string where
  "insecure_url = ''http://project.supabase.co/functions/v1/stripe-webhook''"

definition scenario_env :: "string \<Rightarrow> string option" where
  "scenario_env = map_of
     [(''STRIPE_WEBHOOK_SECRET'', scenario_secret),
      (''SUPABASE_INTERNAL_WEBHOOK_URL'', scenario_url),
      (''SUPABASE_SERVICE_ROLE_KEY'', ''service-role-key''),
      (''INTERNAL_EDGE_AUTH_TOKEN'', ''edge-token'')]"

definition scenario_new_URL :: "string \<Rightarrow> js_error + URL" where
  "scenario_new_URL u =
     (if u = scenario_url
      then Inr \<lparr>protocol = ''https:'', hostname = ''project.supabase.co'',
                pathname = ''/functions/v1/stripe-webhook''\<rparr>
      else if u = insecure_url
      then Inr \<lparr>protocol = ''http:'', hostname = ''project.supabase.co'',
                pathname = ''/functions/v1/stripe-webhook''\<rparr>
      else Inl \<lparr>err_name = ''TypeError'', err_message = ''Invalid URL'', err_cause = None\<rparr>)"

definition connection_refused :: js_error where
  "connection_refused =
     \<lparr>err_name = ''TypeError'', err_message = ''fetch failed'',
      err_cause = Some \<lparr>code = Some ''ECONNREFUSED'', errno = None, syscall = Some ''connect''\<rparr>\<rparr>"

definition reference_error :: js_error where
  "reference_error =
     \<lparr>err_name = ''ReferenceError'', err_message = ''randomUUID is not defined'', err_cause = None\<rparr>"

definition scenario_world :: World where
  "scenario_world =
     \<lparr>process_env = scenario_env,
      Date_now_seconds = 1700000000,
      hmac_sha256 = scenario_hmac,
      new_URL = scenario_new_URL,
      fetch = (\<lambda>call. Resolves 200),
      Date_toISOString = ''2023-11-14T22:13:20.000Z'',
      randomUUID = Inr ''3b241101-e2bb-4255-8caf-4136c566a962''\<rparr>"

definition scenario_request :: Request where
  "scenario_request =
     \<lparr>request_text = Inr scenario_body,
      headers_get = map_of [(''stripe-signature'', scenario_header),
                            (''content-type'', ''application/json'')]\<rparr>"

text \<open>The same world with the downstream unreachable, with the downstream answering 503,
  with \<open>randomUUID\<close> unbound, with a plain-http destination, and in ping mode.\<close>

definition unreachable_world :: World where
  "unreachable_world = scenario_world\<lparr>fetch := (\<lambda>call. Rejects connection_refused)\<rparr>"


definition unbound_uuid_world :: World where
  "unbound_uuid_world = scenario_world\<lparr>randomUUID := Inl reference_error\<rparr>"

definition insecure_world :: World where
  "insecure_world =
     scenario_world\<lparr>process_env := scenario_env(''SUPABASE_INTERNAL_WEBHOOK_URL'' \<mapsto> insecure_url)\<rparr>"




definition unreadable_request :: Request where
  "unreadable_request =
     \<lparr>request_text = Inl \<lparr>err_name = ''TypeError'', err_message = ''Body is unusable'', err_cause = None\<rparr>,
      headers_get = map_of [(''stripe-signature'', scenario_header)]\<rparr>"

text \<open>Worlds with one configuration defect each: no edge token, no destination URL, a
  destination the URL parser rejects, and no service-role key.\<close>

definition tokenless_world :: World where
  "tokenless_world =
     scenario_world\<lparr>process_env := scenario_env(''INTERNAL_EDGE_AUTH_TOKEN'' \<mapsto> ''  '')\<rparr>"

definition urlless_world :: World where
  "urlless_world =
     scenario_world\<lparr>process_env := scenario_env(''SUPABASE_INTERNAL_WEBHOOK_URL'' := None)\<rparr>"

definition badurl_world :: World where
  "badurl_world =
     scenario_world\<lparr>process_env := scenario_env(''SUPABASE_INTERNAL_WEBHOOK_URL'' \<mapsto> ''project.supabase.co'')\<rparr>"

definition keyless_world :: World where
  "keyless_world =
     scenario_world\<lparr>process_env := scenario_env(''SUPABASE_SERVICE_ROLE_KEY'' := None)\<rparr>"

section \<open>Lemmas on buffers, the parser and the candidate loop\<close>

lemma nat_less_16_cases:
  "(n::nat) < 16 \<Longrightarrow> n \<in> {0, 1, 2, 3, 4, 5, 6, 7, 8, 9, 10, 11, 12, 13, 14, 15}"
  by simp arith

lemma unhex_hex_digit: "n < 16 \<Longrightarrow> unhex (hex_digit n) = Some n"
proof -
  assume "n < 16"
  then have "n \<in> {0, 1, 2, 3, 4, 5, 6, 7, 8, 9, 10, 11, 12, 13, 14, 15}"
    by (rule nat_less_16_cases)
  then show ?thesis
    by (auto simp: hex_digit_def unhex_def)
qed

lemma byte_recompose: "(of_nat (unat b div 16 * 16 + unat b mod 16) :: 8 word) = b"
  by simp

lemma unat_byte_div_16: "unat (b :: 8 word) div 16 < 16"
proof -
  have "unat b < 256" using unsigned_less [of b] by simp
  then show ?thesis by simp
qed

lemma hex_decode_encode: "hex_decode (hex_encode bs) = bs"
proof (induction bs)
  case Nil
  show ?case by (simp add: hex_encode_def)
next
  case (Cons b bs)
  have "hex_encode (b # bs) = hex_digit (unat b div 16) # hex_digit (unat b mod 16) # hex_encode bs"
    by (simp add: hex_encode_def)
  then show ?case
    using Cons.IH by (simp add: unhex_hex_digit unat_byte_div_16)
qed

lemma collect_v1_timestamp: "e \<in> set (collect_v1 ts parts) \<Longrightarrow> timestamp e = ts"
  by (induction parts) (auto simp: Let_def split: if_splits option.splits)

lemma parse_entries_timestamp:
  "e \<in> set (parseStripeSignatureHeader H) \<Longrightarrow>
   find_timestamp (split_on CHR '','' H) = Some (timestamp e)"
  by (auto simp: parseStripeSignatureHeader_def Let_def collect_v1_timestamp
           split: option.splits if_splits)

lemma parse_entries_same_timestamp:
  "a \<in> set (parseStripeSignatureHeader H) \<Longrightarrow> b \<in> set (parseStripeSignatureHeader H) \<Longrightarrow>
   timestamp b = timestamp a"
  using parse_entries_timestamp [of a H] parse_entries_timestamp [of b H] by simp

lemma timingSafeEqual_same_length:
  "length a = length b \<Longrightarrow> timingSafeEqual a b = Inr (a = b)"
  by (simp add: timingSafeEqual_def)

lemma verify_entries_outside:
  "\<forall>e\<in>set es. outside_tolerance now (parseInt (timestamp e)) \<Longrightarrow>
   verify_entries hmac now P S es = Inr \<lparr>valid = False, verified_timestamp = None\<rparr>"
  by (induction es) (simp_all add: Let_def)

lemma verify_entries_throws:
  "es \<noteq> [] \<Longrightarrow> \<forall>e\<in>set es. timestamp e = tstr \<Longrightarrow>
   \<not> outside_tolerance now (parseInt tstr) \<Longrightarrow>
   hmac S (toString (parseInt tstr) @ ''.'' @ P) = Inl err \<Longrightarrow>
   verify_entries hmac now P S es = Inl err"
  by (cases es) (simp_all add: Let_def)

lemma verify_entries_digest:
  "\<forall>e\<in>set es. timestamp e = tstr \<Longrightarrow>
   \<not> outside_tolerance now (parseInt tstr) \<Longrightarrow>
   hmac S (toString (parseInt tstr) @ ''.'' @ P) = Inr d \<Longrightarrow>
   verify_entries hmac now P S es =
     Inr (if \<exists>e\<in>set es. hex_decode (signature e) = d
          then \<lparr>valid = True, verified_timestamp = Some (parseInt tstr)\<rparr>
          else \<lparr>valid = False, verified_timestamp = None\<rparr>)"
proof (induction es)
  case Nil
  show ?case by simp
next
  case (Cons e es)
  have ts: "timestamp e = tstr" using Cons.prems(1) by simp
  have IH: "verify_entries hmac now P S es =
     Inr (if \<exists>e\<in>set es. hex_decode (signature e) = d
          then \<lparr>valid = True, verified_timestamp = Some (parseInt tstr)\<rparr>
          else \<lparr>valid = False, verified_timestamp = None\<rparr>)"
    using Cons.IH Cons.prems by simp
  show ?case
  proof (cases "hex_decode (signature e) = d")
    case True
    then show ?thesis
      using ts Cons.prems(2,3)
      by (simp add: Let_def hex_decode_encode timingSafeEqual_same_length)
  next
    case False
    then show ?thesis
      using ts Cons.prems(2,3) IH
      by (auto simp: Let_def hex_decode_encode timingSafeEqual_same_length)
  qed
qed

lemma verify_try_entries:
  "verify_try hmac now P H S = verify_entries hmac now P S (parseStripeSignatureHeader H)"
  by (cases "parseStripeSignatureHeader H") (simp_all add: verify_try_def)

lemma find_timestamp_none:
  "\<forall>part\<in>set parts. \<not> startsWith (trim part) ''t='' \<Longrightarrow> find_timestamp parts = None"
  by (induction parts) (simp_all add: Let_def)

lemma collect_v1_none:
  "\<forall>part\<in>set parts. \<not> startsWith (trim part) ''v1='' \<Longrightarrow> collect_v1 ts parts = []"
  by (induction parts) (simp_all add: Let_def)

lemma find_timestamp_nonempty: "find_timestamp parts = Some v \<Longrightarrow> v \<noteq> []"
  by (induction parts) (auto simp: Let_def split: if_splits option.splits)

lemma parse_collect:
  "find_timestamp (split_on CHR '','' H) = Some tstr \<Longrightarrow>
   parseStripeSignatureHeader H = collect_v1 tstr (split_on CHR '','' H)"
  using find_timestamp_nonempty [of "split_on CHR '','' H" tstr]
  by (simp add: parseStripeSignatureHeader_def Let_def)

lemma verify_entries_candidates:
  assumes same: "\<forall>e\<in>set es. timestamp e = tstr"
  shows "verify_entries hmac now P S es =
     (if es = [] \<or> outside_tolerance now (parseInt tstr)
      then Inr \<lparr>valid = False, verified_timestamp = None\<rparr>
      else (case hmac S (toString (parseInt tstr) @ ''.'' @ P) of
              Inl err \<Rightarrow> Inl err
            | Inr d \<Rightarrow>
                Inr (if \<exists>e\<in>set es. hex_decode (signature e) = d
                     then \<lparr>valid = True, verified_timestamp = Some (parseInt tstr)\<rparr>
                     else \<lparr>valid = False, verified_timestamp = None\<rparr>)))"
proof (cases "es = [] \<or> outside_tolerance now (parseInt tstr)")
  case True
  then have "\<forall>e\<in>set es. outside_tolerance now (parseInt (timestamp e))"
    using same by auto
  then show ?thesis
    using True by (simp add: verify_entries_outside)
next
  case False
  then have ne: "es \<noteq> []" and tol: "\<not> outside_tolerance now (parseInt tstr)"
    by simp_all
  show ?thesis
  proof (cases "hmac S (toString (parseInt tstr) @ ''.'' @ P)")
    case (Inl err)
    then show ?thesis
      using False verify_entries_throws [of es tstr now hmac S P err, OF ne same tol Inl] by simp
  next
    case (Inr d)
    then show ?thesis
      using False verify_entries_digest [of es tstr now hmac S P d, OF same tol Inr] by simp
  qed
qed

lemma valid_iff_candidate_passes:
  "valid (verifyStripeSignature hmac now P H S) \<longleftrightarrow>
   (\<exists>e\<in>set (parseStripeSignatureHeader H). candidate_passes hmac now P S e)"
proof (cases "parseStripeSignatureHeader H")
  case Nil
  then show ?thesis
    by (simp add: verifyStripeSignature_def verify_try_def)
next
  case (Cons a es)
  let ?es = "parseStripeSignatureHeader H"
  have a_in: "a \<in> set ?es" using Cons by simp
  have same: "\<forall>e\<in>set ?es. timestamp e = timestamp a"
    using parse_entries_same_timestamp [OF a_in] by blast
  have ne: "?es \<noteq> []" using Cons by simp
  note char = verify_entries_candidates [of ?es "timestamp a" hmac now P S, OF same]
  show ?thesis
  proof (cases "outside_tolerance now (parseInt (timestamp a))")
    case True
    then show ?thesis
      using char same ne
      by (auto simp: verifyStripeSignature_def verify_try_entries candidate_passes_def Let_def)
  next
    case False
    show ?thesis
    proof (cases "hmac S (toString (parseInt (timestamp a)) @ ''.'' @ P)")
      case (Inl err)
      then show ?thesis
        using char same ne False
        by (auto simp: verifyStripeSignature_def verify_try_entries candidate_passes_def Let_def)
    next
      case (Inr d)
      then show ?thesis
        using char same ne False
        by (auto simp: verifyStripeSignature_def verify_try_entries candidate_passes_def Let_def
                       hex_decode_encode)
    qed
  qed
qed

lemma verify_accepts_candidate:
  assumes e_in: "e \<in> set (parseStripeSignatureHeader H)"
    and num: "parseInt (timestamp e) = Num ts"
    and near: "\<bar>now - ts\<bar> \<le> 300"
    and dig: "hmac S (toString (Num ts) @ ''.'' @ P) = Inr d"
    and sig: "signature e = hex_encode d"
  shows "verifyStripeSignature hmac now P H S = \<lparr>valid = True, verified_timestamp = Some (Num ts)\<rparr>"
proof -
  let ?es = "parseStripeSignatureHeader H"
  have same: "\<forall>c\<in>set ?es. timestamp c = timestamp e"
    using parse_entries_same_timestamp [OF e_in] by blast
  have tol: "\<not> outside_tolerance now (parseInt (timestamp e))"
    using num near by (simp add: TOLERANCE_def)
  have dig': "hmac S (toString (parseInt (timestamp e)) @ ''.'' @ P) = Inr d"
    using num dig by simp
  have hit: "\<exists>c\<in>set ?es. hex_decode (signature c) = d"
  proof (rule bexI [of _ e])
    show "hex_decode (signature e) = d" using sig by (simp add: hex_decode_encode)
    show "e \<in> set ?es" by (rule e_in)
  qed
  have "verify_entries hmac now P S ?es =
     Inr (if \<exists>c\<in>set ?es. hex_decode (signature c) = d
          then \<lparr>valid = True, verified_timestamp = Some (parseInt (timestamp e))\<rparr>
          else \<lparr>valid = False, verified_timestamp = None\<rparr>)"
    by (rule verify_entries_digest [of ?es "timestamp e" now hmac S P d, OF same tol dig'])
  then have "verify_entries hmac now P S ?es = Inr \<lparr>valid = True, verified_timestamp = Some (Num ts)\<rparr>"
    using hit num by simp
  then show ?thesis
    by (simp add: verifyStripeSignature_def verify_try_entries)
qed

lemma verify_rejects_outside:
  assumes "\<forall>c\<in>set (parseStripeSignatureHeader H). \<exists>t. parseInt (timestamp c) = Num t \<and> \<bar>now - t\<bar> > 300"
  shows "valid (verifyStripeSignature hmac now P H S) = False"
proof -
  have "\<forall>c\<in>set (parseStripeSignatureHeader H). outside_tolerance now (parseInt (timestamp c))"
    using assms by (auto simp: TOLERANCE_def)
  then have "verify_entries hmac now P S (parseStripeSignatureHeader H)
      = Inr \<lparr>valid = False, verified_timestamp = None\<rparr>"
    by (rule verify_entries_outside)
  then show ?thesis
    by (simp add: verifyStripeSignature_def verify_try_entries)
qed


text \<open>The header \<open>t=<ts>,v1=<hex>\<close> that a signer writes parses to its one candidate, and
  \<open>parseInt\<close> reads the decimal digits of a timestamp back.\<close>

lemma split_on_absent: "c \<notin> set xs \<Longrightarrow> split_on c xs = [xs]"
  by (induction xs) auto

lemma split_on_first: "c \<notin> set xs \<Longrightarrow> split_on c (xs @ c # ys) = xs # split_on c ys"
  by (induction xs) auto

lemma int_digit_cases:
  "0 \<le> (d::int) \<Longrightarrow> d < 10 \<Longrightarrow> d \<in> {0, 1, 2, 3, 4, 5, 6, 7, 8, 9}"
  by simp arith

lemma digit_char_props:
  assumes "0 \<le> d" "d < 10"
  shows "isDigit (digit_char d)" and "digit_value (digit_char d) = d"
    and "\<not> isWhiteSpace (digit_char d)"
    and "digit_char d \<notin> {CHR '','', CHR ''='', CHR ''+'', CHR ''-''}"
proof -
  have d: "d \<in> {0, 1, 2, 3, 4, 5, 6, 7, 8, 9}"
    using assms by (rule int_digit_cases)
  show "isDigit (digit_char d)" using d by (auto simp: isDigit_def digit_char_def)
  show "digit_value (digit_char d) = d" using d by (auto simp: digit_value_def digit_char_def)
  show "\<not> isWhiteSpace (digit_char d)" using d by (auto simp: isWhiteSpace_def digit_char_def)
  show "digit_char d \<notin> {CHR '','', CHR ''='', CHR ''+'', CHR ''-''}"
    using d by (auto simp: digit_char_def)
qed

lemma decimal_digits: "0 \<le> n \<Longrightarrow> \<forall>c\<in>set (decimal n). isDigit c \<and> \<not> isWhiteSpace c \<and>
    c \<notin> {CHR '','', CHR ''='', CHR ''+'', CHR ''-''}"
proof (induction n rule: decimal.induct)
  case (1 n)
  show ?case
  proof (cases "n < 10")
    case True
    then show ?thesis
      using "1.prems" digit_char_props [of n] by (simp add: decimal.simps [of n])
  next
    case False
    then have "0 \<le> n div 10" using "1.prems" by simp
    then have IH: "\<forall>c\<in>set (decimal (n div 10)). isDigit c \<and> \<not> isWhiteSpace c \<and>
        c \<notin> {CHR '','', CHR ''='', CHR ''+'', CHR ''-''}"
      using "1.IH" False by simp
    have m: "0 \<le> n mod 10" "n mod 10 < 10" by simp_all
    show ?thesis
      using False IH digit_char_props [OF m] by (simp add: decimal.simps [of n])
  qed
qed

lemma decimal_nonempty: "decimal n \<noteq> []"
  by (simp add: decimal.simps [of n])

lemma digits_value_snoc: "digits_value (xs @ [c]) = 10 * digits_value xs + digit_value c"
  by (simp add: digits_value_def)

lemma digits_value_decimal: "0 \<le> n \<Longrightarrow> digits_value (decimal n) = n"
proof (induction n rule: decimal.induct)
  case (1 n)
  show ?case
  proof (cases "n < 10")
    case True
    then show ?thesis
      using "1.prems" digit_char_props(2) [of n]
      by (simp add: decimal.simps [of n] digits_value_def)
  next
    case False
    then have IH: "digits_value (decimal (n div 10)) = n div 10"
      using "1.IH" "1.prems" by simp
    have m: "0 \<le> n mod 10" "n mod 10 < 10" by simp_all
    show ?thesis
      using False IH digit_char_props(2) [OF m]
      by (simp add: decimal.simps [of n] digits_value_snoc)
  qed
qed

lemma parseInt_decimal: "0 \<le> n \<Longrightarrow> parseInt (decimal n) = Num n"
proof -
  assume n: "0 \<le> n"
  obtain c cs where cs: "decimal n = c # cs"
    using decimal_nonempty [of n] by (cases "decimal n") auto
  have all: "\<forall>x\<in>set (c # cs). isDigit x \<and> \<not> isWhiteSpace x \<and>
      x \<notin> {CHR '','', CHR ''='', CHR ''+'', CHR ''-''}"
    using decimal_digits [OF n] cs by simp
  have tw: "takeWhile isDigit cs = cs"
    using all by (simp add: takeWhile_eq_all_conv)
  have "parseInt (c # cs) = Num (digits_value (c # cs))"
    using all by (simp add: parseInt_def trimStart_def Let_def tw)
  then show ?thesis
    using cs digits_value_decimal [OF n] by simp
qed

lemma hex_digit_plain:
  assumes "n < 16"
  shows "\<not> isWhiteSpace (hex_digit n) \<and> hex_digit n \<noteq> CHR '','' \<and> hex_digit n \<noteq> CHR ''=''"
proof -
  have "n \<in> {0, 1, 2, 3, 4, 5, 6, 7, 8, 9, 10, 11, 12, 13, 14, 15}"
    using assms by (rule nat_less_16_cases)
  then show ?thesis
    by (auto simp: hex_digit_def isWhiteSpace_def)
qed

lemma hex_encode_plain:
  "\<forall>c\<in>set (hex_encode d). \<not> isWhiteSpace c \<and> c \<noteq> CHR '','' \<and> c \<noteq> CHR ''=''"
proof (induction d)
  case Nil
  show ?case by (simp add: hex_encode_def)
next
  case (Cons b bs)
  have e: "hex_encode (b # bs) = hex_digit (unat b div 16) # hex_digit (unat b mod 16) # hex_encode bs"
    by (simp add: hex_encode_def)
  have m: "unat b mod 16 < 16" by simp
  show ?case
    using Cons.IH hex_digit_plain [OF unat_byte_div_16 [of b]] hex_digit_plain [OF m]
    by (simp add: e)
qed

lemma hex_encode_nonempty: "d \<noteq> [] \<Longrightarrow> hex_encode d \<noteq> []"
  by (cases d) (simp_all add: hex_encode_def)

lemma trim_plain: "\<forall>c\<in>set s. \<not> isWhiteSpace c \<Longrightarrow> trim s = s"
proof -
  assume a: "\<forall>c\<in>set s. \<not> isWhiteSpace c"
  have 1: "dropWhile isWhiteSpace s = s" using a by (cases s) auto
  have 2: "dropWhile isWhiteSpace (rev s) = rev s" using a by (cases "rev s") auto
  show ?thesis by (simp add: trim_def 1 2)
qed

lemma canonical_header_parse:
  assumes ts: "0 \<le> ts" and d: "d \<noteq> []"
  shows "parseStripeSignatureHeader (''t='' @ decimal ts @ '',v1='' @ hex_encode d)
           = [\<lparr>timestamp = decimal ts, signature = hex_encode d\<rparr>]"
proof -
  let ?A = "''t='' @ decimal ts" and ?B = "''v1='' @ hex_encode d"
  have dec: "\<forall>c\<in>set (decimal ts). \<not> isWhiteSpace c \<and> c \<noteq> CHR '','' \<and> c \<noteq> CHR ''=''"
    using decimal_digits [OF ts] by auto
  have hex: "\<forall>c\<in>set (hex_encode d). \<not> isWhiteSpace c \<and> c \<noteq> CHR '','' \<and> c \<noteq> CHR ''=''"
    by (rule hex_encode_plain)
  have plainA: "\<forall>c\<in>set ?A. \<not> isWhiteSpace c" using dec by (auto simp: isWhiteSpace_def)
  have plainB: "\<forall>c\<in>set ?B. \<not> isWhiteSpace c" using hex by (auto simp: isWhiteSpace_def)
  have nocommaA: "CHR '','' \<notin> set ?A" using dec by auto
  have nocommaB: "CHR '','' \<notin> set ?B" using hex by auto
  have "''t='' @ decimal ts @ '',v1='' @ hex_encode d = ?A @ CHR '','' # ?B" by simp
  then have parts: "split_on CHR '','' (''t='' @ decimal ts @ '',v1='' @ hex_encode d) = [?A, ?B]"
    using split_on_first [OF nocommaA, of ?B] split_on_absent [OF nocommaB] by simp
  have trimA: "trim ?A = ?A" by (rule trim_plain [OF plainA])
  have trimB: "trim ?B = ?B" by (rule trim_plain [OF plainB])
  have eqA: "CHR ''='' \<notin> set (decimal ts)" using dec by auto
  have eqB: "CHR ''='' \<notin> set (hex_encode d)" using hex by auto
  have pieceA: "second_piece ?A = Some (decimal ts)"
    using split_on_absent [OF eqA] by (simp add: second_piece_def)
  have pieceB: "second_piece ?B = Some (hex_encode d)"
    using split_on_absent [OF eqB] by (simp add: second_piece_def)
  have startA: "startsWith ?A ''t=''" "\<not> startsWith ?A ''v1=''"
    by (simp_all add: startsWith_def)
  have startB: "startsWith ?B ''v1=''"
    by (simp add: startsWith_def)
  have find: "find_timestamp [?A, ?B] = Some (decimal ts)"
    using trimA startA pieceA decimal_nonempty [of ts] by (simp add: Let_def del: append.simps)
  have coll: "collect_v1 (decimal ts) [?A, ?B] = [\<lparr>timestamp = decimal ts, signature = hex_encode d\<rparr>]"
    using trimA trimB startA startB pieceB hex_encode_nonempty [OF d]
    by (simp add: Let_def del: append.simps)
  show ?thesis
    using parts find coll decimal_nonempty [of ts]
    by (simp add: parseStripeSignatureHeader_def Let_def del: append.simps)
qed

lemma canonical_header_verifies:
  assumes "0 \<le> ts" and "d \<noteq> []" and "\<bar>now - ts\<bar> \<le> 300"
    and "hmac S (decimal ts @ ''.'' @ P) = Inr d"
  shows "verifyStripeSignature hmac now P (''t='' @ decimal ts @ '',v1='' @ hex_encode d) S
           = \<lparr>valid = True, verified_timestamp = Some (Num ts)\<rparr>"
proof (rule verify_accepts_candidate [of "\<lparr>timestamp = decimal ts, signature = hex_encode d\<rparr>"])
  show "\<lparr>timestamp = decimal ts, signature = hex_encode d\<rparr>
          \<in> set (parseStripeSignatureHeader (''t='' @ decimal ts @ '',v1='' @ hex_encode d))"
    using canonical_header_parse [OF assms(1,2)] by simp
  show "parseInt (timestamp \<lparr>timestamp = decimal ts, signature = hex_encode d\<rparr>) = Num ts"
    using parseInt_decimal [OF assms(1)] by simp
  show "\<bar>now - ts\<bar> \<le> 300" by (rule assms(3))
  show "hmac S (toString (Num ts) @ ''.'' @ P) = Inr d" using assms(1,4) by simp
  show "signature \<lparr>timestamp = decimal ts, signature = hex_encode d\<rparr> = hex_encode d" by simp
qed

text \<open>The scenario header, evaluated.\<close>

lemma scenario_header_parse:
  "parseStripeSignatureHeader scenario_header =
     [\<lparr>timestamp = ''1700000000'', signature = hex_encode scenario_digest\<rparr>]"
  by code_simp

lemma scenario_timestamp_parse: "parseInt ''1700000000'' = Num 1700000000"
  by code_simp

lemma scenario_hmac_digest:
  "scenario_hmac scenario_secret (toString (Num 1700000000) @ ''.'' @ scenario_body) = Inr scenario_digest"
  by code_simp

section \<open>The claims about signature verification\<close>

text \<open>
  Claim C1. Take any payload \<open>P\<close>, secret \<open>S\<close> and header \<open>H\<close>. If \<open>H\<close> holds a candidate
  whose timestamp reads as the number \<open>ts\<close> with \<open>|now - ts| \<le> 300\<close> and whose value is the
  lower-case hex of the HMAC of \<open>"<ts>." + P\<close> under \<open>S\<close>, the verifier returns
  \<open>valid = true\<close> with that timestamp. If every candidate of \<open>H\<close> has a numeric timestamp
  more than 300 seconds from \<open>now\<close>, the verifier returns \<open>valid = false\<close>. In particular
  the header \<open>t=<ts>,v1=<hex>\<close> written by a signer verifies exactly when \<open>|now - ts| \<le> 300\<close>:
  301 seconds away it does not.
\<close>

theorem verify_accepts_within_tolerance_rejects_outside:
  "(e \<in> set (parseStripeSignatureHeader H) \<and> parseInt (timestamp e) = Num ts \<and>
    \<bar>now - ts\<bar> \<le> 300 \<and> hmac S (toString (Num ts) @ ''.'' @ P) = Inr d \<and>
    signature e = hex_encode d
    \<longrightarrow> verifyStripeSignature hmac now P H S = \<lparr>valid = True, verified_timestamp = Some (Num ts)\<rparr>)
   \<and> ((\<forall>c\<in>set (parseStripeSignatureHeader H). \<exists>t. parseInt (timestamp c) = Num t \<and> \<bar>now - t\<bar> > 300)
    \<longrightarrow> valid (verifyStripeSignature hmac now P H S) = False)
   \<and> (0 \<le> ts \<and> d \<noteq> [] \<and> hmac S (toString (Num ts) @ ''.'' @ P) = Inr d
    \<longrightarrow> (valid (verifyStripeSignature hmac now P
                   (''t='' @ toString (Num ts) @ '',v1='' @ hex_encode d) S)
          \<longleftrightarrow> \<bar>now - ts\<bar> \<le> 300))"
proof (intro conjI impI)
  assume "e \<in> set (parseStripeSignatureHeader H) \<and> parseInt (timestamp e) = Num ts \<and>
    \<bar>now - ts\<bar> \<le> 300 \<and> hmac S (toString (Num ts) @ ''.'' @ P) = Inr d \<and>
    signature e = hex_encode d"
  then show "verifyStripeSignature hmac now P H S = \<lparr>valid = True, verified_timestamp = Some (Num ts)\<rparr>"
    using verify_accepts_candidate [of e H ts now hmac S P d] by simp
next
  assume "\<forall>c\<in>set (parseStripeSignatureHeader H). \<exists>t. parseInt (timestamp c) = Num t \<and> \<bar>now - t\<bar> > 300"
  then show "valid (verifyStripeSignature hmac now P H S) = False"
    by (rule verify_rejects_outside)
next
  assume h: "0 \<le> ts \<and> d \<noteq> [] \<and> hmac S (toString (Num ts) @ ''.'' @ P) = Inr d"
  let ?H = "''t='' @ decimal ts @ '',v1='' @ hex_encode d"
  have ts: "0 \<le> ts" and d: "d \<noteq> []"
    using h by simp_all
  have dig: "hmac S (decimal ts @ ''.'' @ P) = Inr d"
    using h by (cases "ts < 0") simp_all
  have str: "toString (Num ts) = decimal ts" using ts by simp
  have parse: "parseStripeSignatureHeader ?H = [\<lparr>timestamp = decimal ts, signature = hex_encode d\<rparr>]"
    by (rule canonical_header_parse [OF ts d])
  have "valid (verifyStripeSignature hmac now P ?H S) \<longleftrightarrow> \<bar>now - ts\<bar> \<le> 300"
  proof (cases "\<bar>now - ts\<bar> \<le> 300")
    case True
    then show ?thesis
      using canonical_header_verifies [of ts d now hmac S P, OF ts d True dig] by simp
  next
    case False
    then have "\<forall>c\<in>set (parseStripeSignatureHeader ?H).
        \<exists>t. parseInt (timestamp c) = Num t \<and> \<bar>now - t\<bar> > 300"
      using parse parseInt_decimal [OF ts] by simp
    then have "valid (verifyStripeSignature hmac now P ?H S) = False"
      by (rule verify_rejects_outside)
    then show ?thesis using False by simp
  qed
  then show "valid (verifyStripeSignature hmac now P
                   (''t='' @ toString (Num ts) @ '',v1='' @ hex_encode d) S)
          \<longleftrightarrow> \<bar>now - ts\<bar> \<le> 300"
    by (simp only: str)
qed

lemma scenario_header_canonical:
  "scenario_header = ''t='' @ toString (Num 1700000000) @ '',v1='' @ hex_encode scenario_digest"
  by code_simp

theorem verify_accepts_within_tolerance_rejects_outside_witness:
  "verifyStripeSignature scenario_hmac 1700000300 scenario_body scenario_header scenario_secret
     = \<lparr>valid = True, verified_timestamp = Some (Num 1700000000)\<rparr>
   \<and> valid (verifyStripeSignature scenario_hmac 1700000301 scenario_body scenario_header scenario_secret)
     = False
   \<and> valid (verifyStripeSignature scenario_hmac 1699999700 scenario_body scenario_header scenario_secret)
   \<and> \<not> valid (verifyStripeSignature scenario_hmac 1699999699 scenario_body scenario_header scenario_secret)"
proof -
  let ?e = "\<lparr>timestamp = ''1700000000'', signature = hex_encode scenario_digest\<rparr>"
  have inside: "?e \<in> set (parseStripeSignatureHeader scenario_header) \<and>
      parseInt (timestamp ?e) = Num 1700000000 \<and> \<bar>1700000300 - (1700000000::int)\<bar> \<le> 300 \<and>
      scenario_hmac scenario_secret (toString (Num 1700000000) @ ''.'' @ scenario_body) = Inr scenario_digest \<and>
      signature ?e = hex_encode scenario_digest"
    using scenario_header_parse scenario_timestamp_parse scenario_hmac_digest by simp
  have outside: "\<forall>c\<in>set (parseStripeSignatureHeader scenario_header).
      \<exists>t. parseInt (timestamp c) = Num t \<and> \<bar>1700000301 - t\<bar> > 300"
    by (simp add: scenario_header_parse scenario_timestamp_parse)
  have signed: "(0::int) \<le> 1700000000 \<and> scenario_digest \<noteq> [] \<and>
      scenario_hmac scenario_secret (toString (Num 1700000000) @ ''.'' @ scenario_body) = Inr scenario_digest"
    using scenario_hmac_digest by (simp add: scenario_digest_def)
  note inst = verify_accepts_within_tolerance_rejects_outside
                [of ?e scenario_header 1700000000 _ scenario_hmac scenario_secret scenario_body
                    scenario_digest]
  have 1: "verifyStripeSignature scenario_hmac 1700000300 scenario_body scenario_header scenario_secret
     = \<lparr>valid = True, verified_timestamp = Some (Num 1700000000)\<rparr>"
    by (rule inst [of 1700000300, THEN conjunct1, THEN mp, OF inside])
  have 2: "valid (verifyStripeSignature scenario_hmac 1700000301 scenario_body scenario_header scenario_secret)
     = False"
    by (rule inst [of 1700000301, THEN conjunct2, THEN conjunct1, THEN mp, OF outside])
  have 3: "valid (verifyStripeSignature scenario_hmac 1699999700 scenario_body scenario_header scenario_secret)"
    unfolding scenario_header_canonical
    using inst [of 1699999700, THEN conjunct2, THEN conjunct2, THEN mp, OF signed]
    by simp
  have 4: "\<not> valid (verifyStripeSignature scenario_hmac 1699999699 scenario_body scenario_header scenario_secret)"
    unfolding scenario_header_canonical
    using inst [of 1699999699, THEN conjunct2, THEN conjunct2, THEN mp, OF signed]
    by simp
  from 1 2 3 4 show ?thesis by simp
qed

text \<open>
  Claim C7. A header that parses to two candidates, with a timestamp within tolerance, one of
  whose values is the expected HMAC hex, verifies as valid whatever the other value is and in
  either order: the loop goes on past a failing candidate. In general the verifier returns
  \<open>valid = true\<close> exactly when some candidate of the parsed list passes the time check and
  the buffer comparison.
\<close>

theorem rotation_header_verifies:
  "(parseStripeSignatureHeader H = [a, b] \<and> parseInt (timestamp a) = Num ts \<and> \<bar>now - ts\<bar> \<le> 300 \<and>
    hmac S (toString (Num ts) @ ''.'' @ P) = Inr d \<and>
    (signature a = hex_encode d \<or> signature b = hex_encode d)
    \<longrightarrow> verifyStripeSignature hmac now P H S = \<lparr>valid = True, verified_timestamp = Some (Num ts)\<rparr>)
   \<and> (valid (verifyStripeSignature hmac now P H S) \<longleftrightarrow>
        (\<exists>e\<in>set (parseStripeSignatureHeader H). candidate_passes hmac now P S e))"
proof (intro conjI impI)
  assume h: "parseStripeSignatureHeader H = [a, b] \<and> parseInt (timestamp a) = Num ts \<and>
    \<bar>now - ts\<bar> \<le> 300 \<and> hmac S (toString (Num ts) @ ''.'' @ P) = Inr d \<and>
    (signature a = hex_encode d \<or> signature b = hex_encode d)"
  have a_in: "a \<in> set (parseStripeSignatureHeader H)" and b_in: "b \<in> set (parseStripeSignatureHeader H)"
    using h by simp_all
  have tb: "timestamp b = timestamp a"
    by (rule parse_entries_same_timestamp [OF a_in b_in])
  from h have "signature a = hex_encode d \<or> signature b = hex_encode d" by simp
  then show "verifyStripeSignature hmac now P H S = \<lparr>valid = True, verified_timestamp = Some (Num ts)\<rparr>"
  proof
    assume sa: "signature a = hex_encode d"
    show ?thesis
      using verify_accepts_candidate [of a H ts now hmac S P d] a_in h sa by simp
  next
    assume sb: "signature b = hex_encode d"
    show ?thesis
      using verify_accepts_candidate [of b H ts now hmac S P d] b_in h sb tb by simp
  qed
next
  show "valid (verifyStripeSignature hmac now P H S) \<longleftrightarrow>
        (\<exists>e\<in>set (parseStripeSignatureHeader H). candidate_passes hmac now P S e)"
    by (rule valid_iff_candidate_passes)
qed

lemma rotation_header_parse:
  "parseStripeSignatureHeader rotation_header =
     [\<lparr>timestamp = ''1700000000'',
       signature = ''00a28881fa185c95d33531e4ca449b8a906e7181292ae13a3bafe9132c52e043''\<rparr>,
      \<lparr>timestamp = ''1700000000'', signature = hex_encode scenario_digest\<rparr>]"
  by code_simp

theorem rotation_header_verifies_witness:
  "verifyStripeSignature scenario_hmac 1700000120 scenario_body rotation_header scenario_secret
     = \<lparr>valid = True, verified_timestamp = Some (Num 1700000000)\<rparr>
   \<and> (\<exists>e\<in>set (parseStripeSignatureHeader rotation_header).
         candidate_passes scenario_hmac 1700000120 scenario_body scenario_secret e)"
proof -
  let ?a = "\<lparr>timestamp = ''1700000000'',
       signature = ''00a28881fa185c95d33531e4ca449b8a906e7181292ae13a3bafe9132c52e043''\<rparr>"
  let ?b = "\<lparr>timestamp = ''1700000000'', signature = hex_encode scenario_digest\<rparr>"
  have hyp: "parseStripeSignatureHeader rotation_header = [?a, ?b] \<and>
      parseInt (timestamp ?a) = Num 1700000000 \<and> \<bar>1700000120 - (1700000000::int)\<bar> \<le> 300 \<and>
      scenario_hmac scenario_secret (toString (Num 1700000000) @ ''.'' @ scenario_body) = Inr scenario_digest \<and>
      (signature ?a = hex_encode scenario_digest \<or> signature ?b = hex_encode scenario_digest)"
    using rotation_header_parse scenario_timestamp_parse scenario_hmac_digest by simp
  note inst = rotation_header_verifies
               [of rotation_header ?a ?b 1700000000 1700000120 scenario_hmac scenario_secret
                   scenario_body scenario_digest]
  have v: "verifyStripeSignature scenario_hmac 1700000120 scenario_body rotation_header scenario_secret
     = \<lparr>valid = True, verified_timestamp = Some (Num 1700000000)\<rparr>"
    by (rule inst [THEN conjunct1, THEN mp, OF hyp])
  then have "valid (verifyStripeSignature scenario_hmac 1700000120 scenario_body rotation_header scenario_secret)"
    by simp
  then have "\<exists>e\<in>set (parseStripeSignatureHeader rotation_header).
         candidate_passes scenario_hmac 1700000120 scenario_body scenario_secret e"
    using inst [THEN conjunct2] by simp
  with v show ?thesis by simp
qed

text \<open>
  Claim C8. The parser returns no candidate when no segment of the header, once trimmed,
  starts with \<open>t=\<close>, however many \<open>v1=\<close> segments there are, and when no segment starts
  with \<open>v1=\<close>, whether a timestamp is present or not; and on an empty candidate list the
  verifier returns \<open>valid = false\<close>.
\<close>

theorem parser_empty_without_timestamp_or_v1:
  "((\<forall>part\<in>set (split_on CHR '','' H). \<not> startsWith (trim part) ''t='')
      \<longrightarrow> parseStripeSignatureHeader H = [])
   \<and> ((\<forall>part\<in>set (split_on CHR '','' H). \<not> startsWith (trim part) ''v1='')
      \<longrightarrow> parseStripeSignatureHeader H = [])
   \<and> (parseStripeSignatureHeader H = []
      \<longrightarrow> verifyStripeSignature hmac now P H S = \<lparr>valid = False, verified_timestamp = None\<rparr>)"
proof (intro conjI impI)
  assume "\<forall>part\<in>set (split_on CHR '','' H). \<not> startsWith (trim part) ''t=''"
  then have "find_timestamp (split_on CHR '','' H) = None"
    by (rule find_timestamp_none)
  then show "parseStripeSignatureHeader H = []"
    by (simp add: parseStripeSignatureHeader_def)
next
  assume "\<forall>part\<in>set (split_on CHR '','' H). \<not> startsWith (trim part) ''v1=''"
  then have "\<And>ts. collect_v1 ts (split_on CHR '','' H) = []"
    by (rule collect_v1_none)
  then show "parseStripeSignatureHeader H = []"
    by (simp add: parseStripeSignatureHeader_def Let_def split: option.splits)
next
  assume "parseStripeSignatureHeader H = []"
  then show "verifyStripeSignature hmac now P H S = \<lparr>valid = False, verified_timestamp = None\<rparr>"
    by (simp add: verifyStripeSignature_def verify_try_def)
qed

lemma no_timestamp_header_parts:
  "\<forall>part\<in>set (split_on CHR '','' no_timestamp_header). \<not> startsWith (trim part) ''t=''"
  by code_simp

lemma no_v1_header_parts:
  "\<forall>part\<in>set (split_on CHR '','' no_v1_header). \<not> startsWith (trim part) ''v1=''"
  by code_simp

lemma no_v1_header_timestamp:
  "find_timestamp (split_on CHR '','' no_v1_header) = Some ''1700000000''"
  by code_simp

theorem parser_empty_without_timestamp_or_v1_witness:
  "parseStripeSignatureHeader no_timestamp_header = []
   \<and> parseStripeSignatureHeader no_v1_header = []
   \<and> verifyStripeSignature scenario_hmac 1700000000 scenario_body no_timestamp_header scenario_secret
       = \<lparr>valid = False, verified_timestamp = None\<rparr>"
proof -
  have p1: "parseStripeSignatureHeader no_timestamp_header = []"
    by (rule parser_empty_without_timestamp_or_v1 [THEN conjunct1, THEN mp, OF no_timestamp_header_parts])
  have p2: "parseStripeSignatureHeader no_v1_header = []"
    by (rule parser_empty_without_timestamp_or_v1
               [THEN conjunct2, THEN conjunct1, THEN mp, OF no_v1_header_parts])
  have p3: "verifyStripeSignature scenario_hmac 1700000000 scenario_body no_timestamp_header scenario_secret
       = \<lparr>valid = False, verified_timestamp = None\<rparr>"
    by (rule parser_empty_without_timestamp_or_v1
               [THEN conjunct2, THEN conjunct2, THEN mp, OF p1])
  from p1 p2 p3 show ?thesis by simp
qed




text \<open>
  Claim C10. When the value of the header's \<open>t=\<close> segment is not numeric (\<open>parseInt\<close>
  yields \<open>NaN\<close>), the tolerance check rejects at no clock reading, and at every clock
  reading the verifier returns \<open>valid = true\<close> exactly when the hex decoding of some \<open>v1\<close>
  candidate is the HMAC of \<open>"NaN." + payload\<close> under the secret.
\<close>

theorem nan_timestamp_skips_tolerance:
  "find_timestamp (split_on CHR '','' H) = Some tstr \<and> parseInt tstr = NaN \<longrightarrow>
     (\<forall>now. \<not> outside_tolerance now (parseInt tstr))
     \<and> (\<forall>now. valid (verifyStripeSignature hmac now P H S) \<longleftrightarrow>
           (\<exists>e\<in>set (parseStripeSignatureHeader H). hmac S (''NaN.'' @ P) = Inr (hex_decode (signature e))))"
proof (intro impI conjI allI)
  fix now
  assume h: "find_timestamp (split_on CHR '','' H) = Some tstr \<and> parseInt tstr = NaN"
  then show "\<not> outside_tolerance now (parseInt tstr)" by simp
next
  fix now
  assume h: "find_timestamp (split_on CHR '','' H) = Some tstr \<and> parseInt tstr = NaN"
  have ts: "\<And>e. e \<in> set (parseStripeSignatureHeader H) \<Longrightarrow> parseInt (timestamp e) = NaN"
    using h parse_entries_timestamp [of _ H] by auto
  have "\<And>e. e \<in> set (parseStripeSignatureHeader H) \<Longrightarrow>
          candidate_passes hmac now P S e \<longleftrightarrow> hmac S (''NaN.'' @ P) = Inr (hex_decode (signature e))"
    using ts by (auto simp: candidate_passes_def Let_def hex_decode_encode split: sum.splits)
  then show "valid (verifyStripeSignature hmac now P H S) \<longleftrightarrow>
           (\<exists>e\<in>set (parseStripeSignatureHeader H). hmac S (''NaN.'' @ P) = Inr (hex_decode (signature e)))"
    by (simp add: valid_iff_candidate_passes)
qed

lemma nan_header_timestamp:
  "find_timestamp (split_on CHR '','' nan_header) = Some ''abc'' \<and> parseInt ''abc'' = NaN"
  by code_simp

lemma nan_header_match:
  "\<exists>e\<in>set (parseStripeSignatureHeader nan_header).
     scenario_hmac scenario_secret (''NaN.'' @ scenario_body) = Inr (hex_decode (signature e))"
  by code_simp

theorem nan_timestamp_skips_tolerance_witness:
  "find_timestamp (split_on CHR '','' nan_header) = Some ''abc'' \<and> parseInt ''abc'' = NaN
   \<and> valid (verifyStripeSignature scenario_hmac 0 scenario_body nan_header scenario_secret)
   \<and> valid (verifyStripeSignature scenario_hmac 1700000000 scenario_body nan_header scenario_secret)"
  using nan_timestamp_skips_tolerance
          [of nan_header "''abc''" scenario_hmac scenario_body scenario_secret,
           THEN mp, OF nan_header_timestamp, THEN conjunct2]
        nan_header_timestamp nan_header_match
  by simp

section \<open>Lemmas on the forwarders and the handlers\<close>

lemma ok_response_eq: "json_response 200 (JObject [(''ok'', JBool True)]) = ok_response"
  by (simp add: json_response_def ok_response_def quote_def escape_char_def)

lemma error_response_status: "status (error_response st msg) = st"
  by (simp add: error_response_def json_response_def)


lemma gateway_response_status: "status (gateway_response g) = 502"
  by (simp add: gateway_response_def json_response_def)



lemma forward_v1_result:
  "forwardToSupabase_v1 w rawBody sig =
     (if falsy (process_env w ''SUPABASE_INTERNAL_WEBHOOK_URL'') \<or>
         falsy (process_env w ''SUPABASE_SERVICE_ROLE_KEY'')
      then (forward_failure, [])
      else (case fetch w (fetch_call_v1 w rawBody sig) of
              Rejects err \<Rightarrow> forward_failure
            | Resolves st \<Rightarrow> \<lparr>success = ok st, forward_status = Some st,
                               forwardError = None, gatewayError = None\<rparr>,
            [fetch_call_v1 w rawBody sig]))"
  by (auto simp: forwardToSupabase_v1_def Let_def forward_failure_def split: FetchOutcome.splits)

text \<open>What the first handler does, as one case distinction.\<close>

lemma POST_v1_result:
  "POST_v1 w req =
     (case request_text req of
        Inl e \<Rightarrow> (Inr internal_server_error, [])
      | Inr rawBody \<Rightarrow>
          (if falsy (headers_get req ''stripe-signature'')
           then (Inr (error_response 400 ''Missing stripe-signature header''), [])
           else if falsy (process_env w ''STRIPE_WEBHOOK_SECRET'')
           then (Inr (error_response 500 ''Server configuration error''), [])
           else if \<not> valid (verifyStripeSignature (hmac_sha256 w) (Date_now_seconds w) rawBody
                               (the (headers_get req ''stripe-signature''))
                               (the (process_env w ''STRIPE_WEBHOOK_SECRET'')))
           then (Inr (error_response 400 ''Invalid signature''), [])
           else (if success (fst (forwardToSupabase_v1 w rawBody (the (headers_get req ''stripe-signature''))))
                 then Inr ok_response
                 else Inr (error_response 500 ''Failed to forward webhook''),
                 snd (forwardToSupabase_v1 w rawBody (the (headers_get req ''stripe-signature''))))))"
  by (auto simp: POST_v1_def POST_v1_try_def Let_def ok_response_eq split: sum.splits prod.splits)

lemma cause_code_fallback:
  "(case cause_code c of Some x \<Rightarrow> Some x | None \<Rightarrow> (case c of None \<Rightarrow> None | Some cl \<Rightarrow> code cl))
     = cause_code c"
  by (auto simp: cause_code_def split: option.splits)

lemma forward_v2_result:
  "forwardToSupabase_v2 w rawBody sig ct ping =
     (if falsy (internalEdgeToken w) then (forward_error ''INTERNAL_EDGE_AUTH_TOKEN missing'', [])
      else if supabaseUrl_v2 w = [] then (forward_error ''Server configuration error'', [])
      else (case new_URL w (supabaseUrl_v2 w) of
              Inl e \<Rightarrow> (forward_error ''Invalid SUPABASE_INTERNAL_WEBHOOK_URL'', [])
            | Inr parsedUrl \<Rightarrow>
                (if protocol parsedUrl \<noteq> ''https:''
                 then (forward_error ''SUPABASE_INTERNAL_WEBHOOK_URL must use https protocol'', [])
                 else (case fetch w (fetch_call_v2 w rawBody sig ct ping) of
                         Rejects err \<Rightarrow>
                           \<lparr>success = False, forward_status = Some 502, forwardError = None,
                            gatewayError = Some \<lparr>name = err_name err, message = err_message err,
                                                 causeCode = cause_code (err_cause err)\<rparr>\<rparr>
                       | Resolves st \<Rightarrow>
                           \<lparr>success = ok st, forward_status = Some st,
                            forwardError = None, gatewayError = None\<rparr>,
                       [fetch_call_v2 w rawBody sig ct ping]))))"
  by (auto simp: forwardToSupabase_v2_def Let_def forward_failure_def cause_code_fallback
           split: FetchOutcome.splits sum.splits)

lemma POST_v2_result:
  "POST_v2 w req =
     (case randomUUID w of
        Inl e \<Rightarrow> (Inl e, [])
      | Inr requestId \<Rightarrow>
     (case request_text req of
        Inl e \<Rightarrow> (Inr internal_server_error, [])
      | Inr rawBody \<Rightarrow>
          (if falsy (headers_get req ''stripe-signature'')
           then (Inr (error_response 400 ''Missing stripe-signature header''), [])
           else if falsy (process_env w ''STRIPE_WEBHOOK_SECRET'')
           then (Inr (error_response 500 ''Server configuration error''), [])
           else if \<not> valid (verifyStripeSignature (hmac_sha256 w) (Date_now_seconds w) rawBody
                               (the (headers_get req ''stripe-signature''))
                               (the (process_env w ''STRIPE_WEBHOOK_SECRET'')))
           then (Inr (error_response 400 ''Invalid signature''), [])
           else (let r = forwardToSupabase_v2 w rawBody (the (headers_get req ''stripe-signature''))
                           (contentType_v2 req) (pingMode_v2 w)
                 in (if success (fst r) then Inr ok_response
                     else (case gatewayError (fst r) of
                             Some g \<Rightarrow> Inr (gateway_response g)
                           | None \<Rightarrow>
                               (if \<not> falsy (forwardError (fst r))
                                then Inr (error_response 500 (the (forwardError (fst r))))
                                else Inr (error_response 500 ''Failed to forward webhook''))),
                     snd r)))))"
  by (auto simp: POST_v2_def POST_v2_try_def Let_def ok_response_eq
           split: sum.splits prod.splits option.splits)

lemma forward_error_fields:
  "success (forward_error msg) = False" "gatewayError (forward_error msg) = None"
  "forwardError (forward_error msg) = Some msg"
  by (simp_all add: forward_error_def forward_failure_def)

lemma forward_failure_fields:
  "success forward_failure = False" "gatewayError forward_failure = None"
  "forwardError forward_failure = None"
  by (simp_all add: forward_failure_def)

text \<open>A call issued by the handler is the forwarder's call for a verified request.\<close>

lemma POST_v1_call:
  assumes "snd (POST_v1 w req) = [call]"
  shows "\<exists>rawBody sig secret.
           request_text req = Inr rawBody \<and> headers_get req ''stripe-signature'' = Some sig \<and>
           process_env w ''STRIPE_WEBHOOK_SECRET'' = Some secret \<and>
           valid (verifyStripeSignature (hmac_sha256 w) (Date_now_seconds w) rawBody sig secret) \<and>
           call = fetch_call_v1 w rawBody sig \<and>
           fst (POST_v1 w req) =
             (case fetch w call of
                Rejects err \<Rightarrow> Inr (error_response 500 ''Failed to forward webhook'')
              | Resolves st \<Rightarrow> (if ok st then Inr ok_response
                               else Inr (error_response 500 ''Failed to forward webhook'')))"
proof (cases "request_text req")
  case (Inl e)
  then show ?thesis using assms by (simp add: POST_v1_result)
next
  case (Inr rawBody)
  obtain sig where sig: "headers_get req ''stripe-signature'' = Some sig"
    using assms Inr by (cases "headers_get req ''stripe-signature''") (auto simp: POST_v1_result)
  obtain secret where secret: "process_env w ''STRIPE_WEBHOOK_SECRET'' = Some secret"
    using assms Inr sig
    by (cases "process_env w ''STRIPE_WEBHOOK_SECRET''") (auto simp: POST_v1_result split: if_splits)
  show ?thesis
    using assms Inr sig secret
    by (auto simp: POST_v1_result forward_v1_result forward_failure_fields
             split: if_splits FetchOutcome.splits)
qed

lemma POST_v2_call:
  assumes "snd (POST_v2 w req) = [call]"
  shows "\<exists>rawBody sig secret.
           request_text req = Inr rawBody \<and> headers_get req ''stripe-signature'' = Some sig \<and>
           process_env w ''STRIPE_WEBHOOK_SECRET'' = Some secret \<and>
           valid (verifyStripeSignature (hmac_sha256 w) (Date_now_seconds w) rawBody sig secret) \<and>
           call = fetch_call_v2 w rawBody sig (contentType_v2 req) (pingMode_v2 w) \<and>
           fst (POST_v2 w req) =
             (case fetch w call of
                Rejects err \<Rightarrow>
                  Inr (gateway_response \<lparr>name = err_name err, message = err_message err,
                                         causeCode = cause_code (err_cause err)\<rparr>)
              | Resolves st \<Rightarrow> (if ok st then Inr ok_response
                               else Inr (error_response 500 ''Failed to forward webhook'')))"
proof (cases "randomUUID w")
  case (Inl e)
  then show ?thesis using assms by (simp add: POST_v2_result)
next
  case uuid: (Inr requestId)
  show ?thesis
  proof (cases "request_text req")
    case (Inl e)
    then show ?thesis using assms uuid by (simp add: POST_v2_result)
  next
    case (Inr rawBody)
    obtain sig where sig: "headers_get req ''stripe-signature'' = Some sig"
      using assms Inr uuid by (cases "headers_get req ''stripe-signature''") (auto simp: POST_v2_result)
    obtain secret where secret: "process_env w ''STRIPE_WEBHOOK_SECRET'' = Some secret"
      using assms Inr sig uuid
      by (cases "process_env w ''STRIPE_WEBHOOK_SECRET''") (auto simp: POST_v2_result split: if_splits)
    show ?thesis
      using assms Inr sig secret uuid
      by (auto simp: POST_v2_result forward_v2_result forward_failure_fields forward_error_fields Let_def
               split: if_splits FetchOutcome.splits sum.splits)
  qed
qed







section \<open>The claims about forwarding and the handlers\<close>

text \<open>
  Claim C2. The first handler never lets an exception out, and a fault inside the \<open>try\<close>
  block of either handler is answered with the generic 500. The second handler evaluates
  \<open>randomUUID()\<close> before it enters the \<open>try\<close> block: in a host where that identifier is
  unbound, the \<open>ReferenceError\<close> leaves the handler and no response is produced. The theorem
  evaluates the second handler on the scenario request in such a host.
\<close>

theorem unbound_randomUUID_propagates:
  "randomUUID unbound_uuid_world = Inl reference_error
   \<and> POST_v2 unbound_uuid_world scenario_request = (Inl reference_error, [])"
  by code_simp

text \<open>
  What does hold: the first handler always resolves to a response; the second does once
  \<open>randomUUID()\<close> has returned; a failing \<open>request.text()\<close> gives status 500 with body
  \<open>{"error":"Internal server error"}\<close>; and an exception of \<open>randomUUID()\<close> is the result of
  the second handler.
\<close>

lemma POST_v1_always_responds: "\<exists>r. fst (POST_v1 w req) = Inr r"
  by (auto simp: POST_v1_def split: prod.splits sum.splits)

lemma POST_v2_responds_once_entered:
  "randomUUID w = Inr requestId \<Longrightarrow> \<exists>r. fst (POST_v2 w req) = Inr r"
  by (auto simp: POST_v2_def split: prod.splits sum.splits)

lemma POST_try_fault_generic_500:
  "request_text req = Inl e \<Longrightarrow>
   fst (POST_v1 w req) = Inr internal_server_error \<and>
   (randomUUID w = Inr requestId \<longrightarrow> fst (POST_v2 w req) = Inr internal_server_error)"
  by (simp add: POST_v1_result POST_v2_result)

lemma internal_server_error_body:
  "internal_server_error =
     \<lparr>status = 500, headers = [(''Content-Type'', ''application/json'')],
      body = ''{\"error\":\"Internal server error\"}''\<rparr>"
  by code_simp

lemma POST_v2_propagates: "randomUUID w = Inl e \<Longrightarrow> POST_v2 w req = (Inl e, [])"
  by (simp add: POST_v2_def)

text \<open>
  Claim C3, as amended. When the handler has issued its \<open>fetch\<close> call and the call rejects
  (timeout, DNS, TLS, connection reset), the second variant responds 502 with the error's name,
  message and cause code, and the first variant responds 500 \<open>Failed to forward webhook\<close>.
  A call is issued for verified requests only (lemmas \<open>POST_v1_call\<close>, \<open>POST_v2_call\<close>).
\<close>

theorem connection_failure_status:
  "(snd (POST_v2 w req) = [call] \<and> fetch w call = Rejects err \<longrightarrow>
      (\<exists>r. fst (POST_v2 w req) = Inr r \<and> status r = 502 \<and>
           r = gateway_response \<lparr>name = err_name err, message = err_message err,
                                  causeCode = cause_code (err_cause err)\<rparr>))
   \<and> (snd (POST_v1 w req) = [call] \<and> fetch w call = Rejects err \<longrightarrow>
      (\<exists>r. fst (POST_v1 w req) = Inr r \<and> status r = 500 \<and>
           r = error_response 500 ''Failed to forward webhook''))"
proof (intro conjI impI)
  assume h: "snd (POST_v2 w req) = [call] \<and> fetch w call = Rejects err"
  then have c: "snd (POST_v2 w req) = [call]" by simp
  from POST_v2_call [OF c] h
  show "\<exists>r. fst (POST_v2 w req) = Inr r \<and> status r = 502 \<and>
           r = gateway_response \<lparr>name = err_name err, message = err_message err,
                                  causeCode = cause_code (err_cause err)\<rparr>"
    by (auto simp: gateway_response_status)
next
  assume h: "snd (POST_v1 w req) = [call] \<and> fetch w call = Rejects err"
  then have c: "snd (POST_v1 w req) = [call]" by simp
  from POST_v1_call [OF c] h
  show "\<exists>r. fst (POST_v1 w req) = Inr r \<and> status r = 500 \<and>
           r = error_response 500 ''Failed to forward webhook''"
    by (auto simp: error_response_status)
qed

lemma unreachable_v1_call:
  "snd (POST_v1 unreachable_world scenario_request)
     = [fetch_call_v1 unreachable_world scenario_body scenario_header]"
  by code_simp

lemma unreachable_v2_call:
  "snd (POST_v2 unreachable_world scenario_request)
     = [fetch_call_v2 unreachable_world scenario_body scenario_header ''application/json'' False]"
  by code_simp

lemma unreachable_fetch: "fetch unreachable_world call = Rejects connection_refused"
  by (simp add: unreachable_world_def)

theorem connection_failure_status_witness:
  "fst (POST_v2 unreachable_world scenario_request)
     = Inr (gateway_response \<lparr>name = ''TypeError'', message = ''fetch failed'',
                              causeCode = Some ''ECONNREFUSED''\<rparr>)
   \<and> status (gateway_response \<lparr>name = ''TypeError'', message = ''fetch failed'',
                                causeCode = Some ''ECONNREFUSED''\<rparr>) = 502
   \<and> fst (POST_v1 unreachable_world scenario_request)
     = Inr (error_response 500 ''Failed to forward webhook'')
   \<and> status (error_response 500 ''Failed to forward webhook'') = 500"
  using connection_failure_status
          [of unreachable_world scenario_request
              "fetch_call_v2 unreachable_world scenario_body scenario_header ''application/json'' False"
              connection_refused, THEN conjunct1]
        connection_failure_status
          [of unreachable_world scenario_request
              "fetch_call_v1 unreachable_world scenario_body scenario_header"
              connection_refused, THEN conjunct2]
        unreachable_v1_call unreachable_v2_call unreachable_fetch
  by (auto simp: connection_refused_def cause_code_def)

text \<open>
  The claim as stated, 502 from the handler, fails on the first variant: the scenario request
  is verified, its forward is rejected at the connection level, and the response is 500.
\<close>

theorem first_variant_unreachable_gives_500:
  "valid (verifyStripeSignature (hmac_sha256 unreachable_world) (Date_now_seconds unreachable_world)
            scenario_body scenario_header scenario_secret)
   \<and> snd (POST_v1 unreachable_world scenario_request)
       = [fetch_call_v1 unreachable_world scenario_body scenario_header]
   \<and> fetch unreachable_world (fetch_call_v1 unreachable_world scenario_body scenario_header)
       = Rejects connection_refused
   \<and> fst (POST_v1 unreachable_world scenario_request)
       = Inr \<lparr>status = 500, headers = [(''Content-Type'', ''application/json'')],
              body = ''{\"error\":\"Failed to forward webhook\"}''\<rparr>"
  by code_simp

text \<open>
  Claim C4, as amended. In the second variant an absent or blank edge token, an absent or
  blank destination URL, a URL the parser rejects and a URL whose protocol is not \<open>https:\<close>
  each return a configuration error (\<open>success = false\<close> with a \<open>forwardError\<close> message) and
  no \<open>fetch\<close> call is issued. In the first variant an absent destination URL or service-role
  key returns a failure and no \<open>fetch\<close> call is issued.
\<close>

theorem configuration_defects_before_fetch:
  "((falsy (internalEdgeToken w) \<or> supabaseUrl_v2 w = [] \<or>
     (\<exists>e. new_URL w (supabaseUrl_v2 w) = Inl e) \<or>
     (\<exists>u. new_URL w (supabaseUrl_v2 w) = Inr u \<and> protocol u \<noteq> ''https:''))
    \<longrightarrow> (\<exists>msg. forwardToSupabase_v2 w rawBody sig ct ping = (forward_error msg, [])))
   \<and> ((falsy (process_env w ''SUPABASE_INTERNAL_WEBHOOK_URL'') \<or>
        falsy (process_env w ''SUPABASE_SERVICE_ROLE_KEY''))
    \<longrightarrow> forwardToSupabase_v1 w rawBody sig = (forward_failure, []))"
  by (auto simp: forward_v2_result forward_v1_result)

lemma tokenless_defect: "falsy (internalEdgeToken tokenless_world)"
  by code_simp

lemma urlless_defect: "supabaseUrl_v2 urlless_world = []"
  by code_simp

lemma badurl_defect:
  "new_URL badurl_world (supabaseUrl_v2 badurl_world)
     = Inl \<lparr>err_name = ''TypeError'', err_message = ''Invalid URL'', err_cause = None\<rparr>"
  by code_simp

lemma insecure_defect:
  "new_URL insecure_world (supabaseUrl_v2 insecure_world)
     = Inr \<lparr>protocol = ''http:'', hostname = ''project.supabase.co'',
              pathname = ''/functions/v1/stripe-webhook''\<rparr>"
  by code_simp

lemma keyless_defect: "falsy (process_env keyless_world ''SUPABASE_SERVICE_ROLE_KEY'')"
  by code_simp

theorem configuration_defects_before_fetch_witness:
  "snd (forwardToSupabase_v2 tokenless_world scenario_body scenario_header ''application/json'' False) = []
   \<and> snd (forwardToSupabase_v2 urlless_world scenario_body scenario_header ''application/json'' False) = []
   \<and> snd (forwardToSupabase_v2 badurl_world scenario_body scenario_header ''application/json'' False) = []
   \<and> snd (forwardToSupabase_v2 insecure_world scenario_body scenario_header ''application/json'' False) = []
   \<and> forwardToSupabase_v1 keyless_world scenario_body scenario_header = (forward_failure, [])"
proof -
  note t = configuration_defects_before_fetch
  have 1: "snd (forwardToSupabase_v2 tokenless_world scenario_body scenario_header ''application/json'' False) = []"
    using t [of tokenless_world scenario_body scenario_header "''application/json''" False, THEN conjunct1]
          tokenless_defect by auto
  have 2: "snd (forwardToSupabase_v2 urlless_world scenario_body scenario_header ''application/json'' False) = []"
    using t [of urlless_world scenario_body scenario_header "''application/json''" False, THEN conjunct1]
          urlless_defect by auto
  have 3: "snd (forwardToSupabase_v2 badurl_world scenario_body scenario_header ''application/json'' False) = []"
    using t [of badurl_world scenario_body scenario_header "''application/json''" False, THEN conjunct1]
          badurl_defect by auto
  have 4: "snd (forwardToSupabase_v2 insecure_world scenario_body scenario_header ''application/json'' False) = []"
    using t [of insecure_world scenario_body scenario_header "''application/json''" False, THEN conjunct1]
          insecure_defect by auto
  have 5: "forwardToSupabase_v1 keyless_world scenario_body scenario_header = (forward_failure, [])"
    using t [of keyless_world scenario_body scenario_header "''application/json''" False, THEN conjunct2]
          keyless_defect by auto
  from 1 2 3 4 5 show ?thesis by simp
qed

text \<open>
  The claim as stated fails on the first variant, which neither parses the URL nor looks at
  its scheme: with a plain-http destination it issues the \<open>fetch\<close> call to that URL.
\<close>

theorem first_variant_fetches_plain_http:
  "process_env insecure_world ''SUPABASE_INTERNAL_WEBHOOK_URL'' = Some insecure_url
   \<and> new_URL insecure_world insecure_url
       = Inr \<lparr>protocol = ''http:'', hostname = ''project.supabase.co'',
                pathname = ''/functions/v1/stripe-webhook''\<rparr>
   \<and> snd (forwardToSupabase_v1 insecure_world scenario_body scenario_header)
       = [\<lparr>fetch_url = insecure_url, fetch_method = ''POST'',
           fetch_headers = [(''Content-Type'', ''application/json''),
                            (''Authorization'', ''Bearer service-role-key''),
                            (''stripe-signature'', scenario_header)],
           fetch_body = scenario_body\<rparr>]"
  by code_simp













end
